theory Spec2Isabelle
  imports Main
begin

section \<open>Strings and characters\<close>

text \<open>
  A JavaScript string is modelled by the bytes of its UTF-8 encoding (\<open>string\<close>, a
  \<open>char list\<close>). Every character the program inspects or inserts (backslash, quote,
  NUL, newline, carriage return, tab, digits, the unit letters, \<open>T\<close> and \<open>Z\<close>) is ASCII,
  and an ASCII byte never occurs inside a multi-byte sequence, so replacing such a code
  unit in the UTF-16 string and replacing the byte in the encoding agree.
\<close>

definition backslash :: char where "backslash = CHR 0x5C"
definition quote :: char where "quote = CHR 0x27"
definition nul :: char where "nul = CHR 0x00"
definition newline :: char where "newline = CHR 0x0A"
definition creturn :: char where "creturn = CHR 0x0D"
definition tab :: char where "tab = CHR 0x09"

text \<open>
  \<open>s.replace(/c/g, rep)\<close> for a one-character pattern \<open>c\<close> and a replacement text
  without \<open>$\<close>: every occurrence of \<open>c\<close>, left to right, is replaced by \<open>rep\<close>.
\<close>

definition replaceAll :: "char \<Rightarrow> string \<Rightarrow> string \<Rightarrow> string" where
  "replaceAll c rep s = concat (map (\<lambda>x. if x = c then rep else [x]) s)"

text \<open>
  \<open>s.replace("c", rep)\<close> with a string pattern of one character: only the first
  occurrence is replaced.
\<close>

fun replaceFirst :: "char \<Rightarrow> string \<Rightarrow> string \<Rightarrow> string" where
  "replaceFirst c rep [] = []"
| "replaceFirst c rep (x # xs) = (if x = c then rep @ xs else x # replaceFirst c rep xs)"

section \<open>Escaping of query literals\<close>

text \<open>
  \<open>escapeHogQLString\<close> of the escaping variant of the transport client (the one that
  follows the tool-call server in \<open>mcp-server.ts\<close>): six global replacements, chained in
  the order of the source.
\<close>

definition escapeHogQLString :: "string \<Rightarrow> string" where
  "escapeHogQLString v =
     replaceAll tab [backslash, CHR ''t'']
      (replaceAll creturn [backslash, CHR ''r'']
        (replaceAll newline [backslash, CHR ''n'']
          (replaceAll nul [backslash, CHR ''0'']
            (replaceAll quote [backslash, quote]
              (replaceAll backslash [backslash, backslash] v)))))"

text \<open>
  The other variant (\<open>client.ts\<close>) has no such function: each operation interpolates
  \<open>value.replace(/'/g, "\\'")\<close>, which only puts a backslash before every single quote.
\<close>

definition escapeQuote_client :: "string \<Rightarrow> string" where
  "escapeQuote_client v = replaceAll quote [backslash, quote] v"

text \<open>
  The replacement of one character, when the six passes are seen as a single pass.
\<close>

definition escapeChar :: "char \<Rightarrow> string" where
  "escapeChar c =
     (if c = backslash then [backslash, backslash]
      else if c = quote then [backslash, quote]
      else if c = nul then [backslash, CHR ''0'']
      else if c = newline then [backslash, CHR ''n'']
      else if c = creturn then [backslash, CHR ''r'']
      else if c = tab then [backslash, CHR ''t'']
      else [c])"

text \<open>
  Reading the literal back, following the words of the specification ("embedded and
  re-extracted"): the text between the quotes is scanned from the left, a backslash
  and the character after it stand for one character, and a quote that is not
  preceded by such a backslash ends the literal. \<open>None\<close> is returned when the text
  holds such a quote, a backslash at its end, or an escape that is not one of the six.
\<close>

definition decodeEscape :: "char \<Rightarrow> char option" where
  "decodeEscape d =
     (if d = backslash then Some backslash
      else if d = quote then Some quote
      else if d = CHR ''0'' then Some nul
      else if d = CHR ''n'' then Some newline
      else if d = CHR ''r'' then Some creturn
      else if d = CHR ''t'' then Some tab
      else None)"

fun unescapeLiteral :: "string \<Rightarrow> string option" where
  "unescapeLiteral [] = Some []"
| "unescapeLiteral [c] = (if c = backslash \<or> c = quote then None else Some [c])"
| "unescapeLiteral (c # d # cs) =
     (if c = backslash then
        (case decodeEscape d of
           None \<Rightarrow> None
         | Some x \<Rightarrow> map_option ((#) x) (unescapeLiteral cs))
      else if c = quote then None
      else map_option ((#) c) (unescapeLiteral (d # cs)))"

text \<open>
  Whether a text holds a single quote that is not escaped: scanning from the left, a
  backslash takes the next character with it.
\<close>

fun unescapedQuote :: "string \<Rightarrow> bool" where
  "unescapedQuote [] = False"
| "unescapedQuote [c] = (c = quote)"
| "unescapedQuote (c # d # cs) =
     (if c = backslash then unescapedQuote cs
      else if c = quote then True
      else unescapedQuote (d # cs))"

section \<open>Numbers as text\<close>

text \<open>
  The decimal text of a natural number, as a template literal renders an integer
  (\<open>${response.status}\<close>, \<open>${effectiveLimit}\<close>), and its fixed-width form with leading
  zeros that \<open>toISOString\<close> uses.
\<close>

definition digitChar :: "nat \<Rightarrow> char" where
  "digitChar d = ''0123456789'' ! (d mod 10)"

fun showNat :: "nat \<Rightarrow> string" where
  "showNat n = (if n < 10 then [digitChar n] else showNat (n div 10) @ [digitChar (n mod 10)])"

declare showNat.simps [simp del]

definition showInt :: "int \<Rightarrow> string" where
  "showInt i = (if i < 0 then CHR ''-'' # showNat (nat (- i)) else showNat (nat i))"

definition padZero :: "nat \<Rightarrow> nat \<Rightarrow> string" where
  "padZero w n = replicate (w - length (showNat n)) (CHR ''0'') @ showNat n"

text \<open>
  \<open>\d\<close> of a regular expression without the unicode flag is \<open>[0-9]\<close>;
  \<open>parseInt(s, 10)\<close> of a non-empty text of such digits is its decimal value.
\<close>

definition isDigit :: "char \<Rightarrow> bool" where
  "isDigit c = (c \<in> set ''0123456789'')"

definition digitVal :: "char \<Rightarrow> int" where
  "digitVal c = int (of_char c) - 48"

definition parseInt10 :: "string \<Rightarrow> int" where
  "parseInt10 ds = foldl (\<lambda>n c. 10 * n + digitVal c) 0 ds"

section \<open>The host's Date object\<close>

text \<open>
  A \<open>Date\<close> holds a time value: a whole number of milliseconds since the epoch, or NaN
  (the "Invalid Date"), here \<open>None\<close>. The functions below are the abstract operations of
  ECMA-262 (section "Date Objects") that the methods called by the program are defined
  by. The program's numbers are doubles; every product and sum below is exact on
  doubles as long as it stays under \<open>2^53\<close>, a result beyond \<open>8.64 * 10^15 < 2^53\<close> is
  turned into NaN by \<open>TimeClip\<close>, and rounding never brings a value from above \<open>2^53\<close>
  below it, so unbounded integers followed by \<open>TimeClip\<close> give the same dates.
\<close>

type_synonym date = "int option"

definition msPerDay :: int where "msPerDay = 86400000"
definition msPerHour :: int where "msPerHour = 3600000"
definition msPerMinute :: int where "msPerMinute = 60000"
definition msPerSecond :: int where "msPerSecond = 1000"

definition TimeClip :: "int \<Rightarrow> date" where
  "TimeClip t = (if \<bar>t\<bar> > 8640000000000000 then None else Some t)"

definition Day :: "int \<Rightarrow> int" where
  "Day t = t div msPerDay"

definition TimeWithinDay :: "int \<Rightarrow> int" where
  "TimeWithinDay t = t mod msPerDay"

definition DaysInYear :: "int \<Rightarrow> int" where
  "DaysInYear y =
     (if y mod 4 \<noteq> 0 then 365
      else if y mod 100 \<noteq> 0 then 366
      else if y mod 400 \<noteq> 0 then 365
      else 366)"

definition DayFromYear :: "int \<Rightarrow> int" where
  "DayFromYear y =
     365 * (y - 1970) + (y - 1969) div 4 - (y - 1901) div 100 + (y - 1601) div 400"

text \<open>
  ECMA-262 specifies \<open>YearFromTime t\<close> as the largest \<open>y\<close> whose first day is not after
  \<open>t\<close>. It is computed here from an estimate that is off by at most one year
  (\<open>YearFromDay_bracket\<close> and \<open>YearFromDay_unique\<close> below show that the result is that
  year).
\<close>

definition YearFromDay :: "int \<Rightarrow> int" where
  "YearFromDay d =
     (let y = 1970 + (400 * d) div 146097
      in if d < DayFromYear y then y - 1
         else if DayFromYear (y + 1) \<le> d then y + 1
         else y)"

definition YearFromTime :: "int \<Rightarrow> int" where
  "YearFromTime t = YearFromDay (Day t)"

definition leapDays :: "int \<Rightarrow> int" where
  "leapDays y = (if DaysInYear y = 366 then 1 else 0)"

definition InLeapYear :: "int \<Rightarrow> int" where
  "InLeapYear t = leapDays (YearFromTime t)"

definition DayWithinYear :: "int \<Rightarrow> int" where
  "DayWithinYear t = Day t - DayFromYear (YearFromTime t)"

text \<open>The day of the year on which month \<open>m\<close> (0 to 11) starts; \<open>l\<close> is 1 in a leap year.\<close>

definition monthStart :: "int \<Rightarrow> int \<Rightarrow> int" where
  "monthStart l m =
     (if m = 0 then 0
      else if m = 1 then 31
      else if m = 2 then 59 + l
      else if m = 3 then 90 + l
      else if m = 4 then 120 + l
      else if m = 5 then 151 + l
      else if m = 6 then 181 + l
      else if m = 7 then 212 + l
      else if m = 8 then 243 + l
      else if m = 9 then 273 + l
      else if m = 10 then 304 + l
      else if m = 11 then 334 + l
      else 365 + l)"

definition monthOfDay :: "int \<Rightarrow> int \<Rightarrow> int" where
  "monthOfDay l d =
     (if d < 31 then 0
      else if d < 59 + l then 1
      else if d < 90 + l then 2
      else if d < 120 + l then 3
      else if d < 151 + l then 4
      else if d < 181 + l then 5
      else if d < 212 + l then 6
      else if d < 243 + l then 7
      else if d < 273 + l then 8
      else if d < 304 + l then 9
      else if d < 334 + l then 10
      else 11)"

definition MonthFromTime :: "int \<Rightarrow> int" where
  "MonthFromTime t = monthOfDay (InLeapYear t) (DayWithinYear t)"

definition DateFromTime :: "int \<Rightarrow> int" where
  "DateFromTime t =
     DayWithinYear t - monthStart (InLeapYear t) (MonthFromTime t) + 1"

definition HourFromTime :: "int \<Rightarrow> int" where
  "HourFromTime t = (t div msPerHour) mod 24"

definition MinFromTime :: "int \<Rightarrow> int" where
  "MinFromTime t = (t div msPerMinute) mod 60"

definition SecFromTime :: "int \<Rightarrow> int" where
  "SecFromTime t = (t div msPerSecond) mod 60"

definition msFromTime :: "int \<Rightarrow> int" where
  "msFromTime t = t mod msPerSecond"

definition MakeTime :: "int \<Rightarrow> int \<Rightarrow> int \<Rightarrow> int \<Rightarrow> int" where
  "MakeTime h m s ms = h * msPerHour + m * msPerMinute + s * msPerSecond + ms"

definition MakeDay :: "int \<Rightarrow> int \<Rightarrow> int \<Rightarrow> int" where
  "MakeDay year month dt =
     (let ym = year + month div 12; mn = month mod 12
      in DayFromYear ym + monthStart (leapDays ym) mn + dt - 1)"

definition MakeDate :: "int \<Rightarrow> int \<Rightarrow> int" where
  "MakeDate day time = day * msPerDay + time"

text \<open>
  Local time. The host's time zone is a fixed offset \<open>tza\<close> from UTC, in milliseconds;
  daylight-saving transitions are outside the model.
\<close>

definition LocalTime :: "int \<Rightarrow> int \<Rightarrow> int" where
  "LocalTime tza t = t + tza"

definition UTC :: "int \<Rightarrow> int \<Rightarrow> int" where
  "UTC tza t = t - tza"

text \<open>The methods of \<open>Date.prototype\<close> the program calls, on a valid time value \<open>t\<close>.\<close>

definition getHours :: "int \<Rightarrow> int \<Rightarrow> int" where
  "getHours tza t = HourFromTime (LocalTime tza t)"

definition getDate :: "int \<Rightarrow> int \<Rightarrow> int" where
  "getDate tza t = DateFromTime (LocalTime tza t)"

definition getMonth :: "int \<Rightarrow> int \<Rightarrow> int" where
  "getMonth tza t = MonthFromTime (LocalTime tza t)"

definition setHours :: "int \<Rightarrow> int \<Rightarrow> int \<Rightarrow> date" where
  "setHours tza t h =
     (let l = LocalTime tza t
      in TimeClip (UTC tza (MakeDate (Day l)
           (MakeTime h (MinFromTime l) (SecFromTime l) (msFromTime l)))))"

definition setDate :: "int \<Rightarrow> int \<Rightarrow> int \<Rightarrow> date" where
  "setDate tza t dt =
     (let l = LocalTime tza t
      in TimeClip (UTC tza (MakeDate (MakeDay (YearFromTime l) (MonthFromTime l) dt)
           (TimeWithinDay l))))"

definition setMonth :: "int \<Rightarrow> int \<Rightarrow> int \<Rightarrow> date" where
  "setMonth tza t m =
     (let l = LocalTime tza t
      in TimeClip (UTC tza (MakeDate (MakeDay (YearFromTime l) m (DateFromTime l))
           (TimeWithinDay l))))"

datatype error = Error string | SyntaxError | RangeError | TypeError

text \<open>
  \<open>toISOString\<close>: \<open>YYYY-MM-DDTHH:mm:ss.sssZ\<close> in UTC, the year with a sign and six
  digits outside 0 to 9999; on an invalid date it throws a \<open>RangeError\<close>.
\<close>

definition isoYear :: "int \<Rightarrow> string" where
  "isoYear y =
     (if 0 \<le> y \<and> y \<le> 9999 then padZero 4 (nat y)
      else if y < 0 then CHR ''-'' # padZero 6 (nat (- y))
      else CHR ''+'' # padZero 6 (nat y))"

definition isoText :: "int \<Rightarrow> string" where
  "isoText t =
     isoYear (YearFromTime t) @ ''-'' @ padZero 2 (nat (MonthFromTime t + 1)) @ ''-''
       @ padZero 2 (nat (DateFromTime t)) @ ''T'' @ padZero 2 (nat (HourFromTime t)) @ '':''
       @ padZero 2 (nat (MinFromTime t)) @ '':'' @ padZero 2 (nat (SecFromTime t)) @ ''.''
       @ padZero 3 (nat (msFromTime t)) @ ''Z''"

definition toISOString :: "date \<Rightarrow> error + string" where
  "toISOString d = (case d of None \<Rightarrow> Inl RangeError | Some t \<Rightarrow> Inr (isoText t))"

section \<open>Relative and absolute dates\<close>

text \<open>
  What the program takes from its host: the fixed time zone offset, the result of
  \<open>new Date(text)\<close> (the host's date parser, whose fallback formats ECMA-262 leaves to the
  implementation; \<open>None\<close> is the Invalid Date) and the result of \<open>JSON.parse\<close> (\<open>None\<close>
  when it throws its \<open>SyntaxError\<close>). The reading of the clock by \<open>new Date()\<close> is an
  argument of each function that makes one: a valid time value.
\<close>

datatype json =
    JNull
  | JBool bool
  | JNum int int
  | JStr string
  | JArr "json list"
  | JObj "(string \<times> json) list"

record host =
  localTZA :: int
  parseDate :: "string \<Rightarrow> date"
  parseJson :: "string \<Rightarrow> json option"

text \<open>
  \<open>dateString.match(/^(\d+)([dhwm])$/)\<close>: the whole text is one or more digits followed
  by one unit letter. The groups are the digits and the letter.
\<close>

definition matchRelative :: "string \<Rightarrow> (string \<times> char) option" where
  "matchRelative s =
     (if s = [] then None
      else if butlast s \<noteq> [] \<and> list_all isDigit (butlast s) \<and> last s \<in> set ''dhwm''
      then Some (butlast s, last s)
      else None)"

text \<open>\<open>parseRelativeDate\<close> of the escaping variant (\<open>mcp-server.ts\<close>, lines 387 to 413).\<close>

definition parseRelativeDate :: "host \<Rightarrow> int \<Rightarrow> string \<Rightarrow> date" where
  "parseRelativeDate h now dateString =
     (case matchRelative dateString of
        None \<Rightarrow> parseDate h dateString
      | Some (amountStr, unit) \<Rightarrow>
          (let amount = parseInt10 amountStr
           in if unit = CHR ''h'' then TimeClip (now - amount * 60 * 60 * 1000)
              else if unit = CHR ''d'' then TimeClip (now - amount * 24 * 60 * 60 * 1000)
              else if unit = CHR ''w'' then TimeClip (now - amount * 7 * 24 * 60 * 60 * 1000)
              else if unit = CHR ''m''
                then setMonth (localTZA h) now (getMonth (localTZA h) now - amount)
              else Some now))"

text \<open>
  \<open>parseRelativeDate\<close> of \<open>client.ts\<close> (lines 13 to 40): the same match, then the
  setters of the \<open>Date\<close> object, which work on local time.
\<close>

definition parseRelativeDate_client :: "host \<Rightarrow> int \<Rightarrow> string \<Rightarrow> date" where
  "parseRelativeDate_client h now dateString =
     (case matchRelative dateString of
        None \<Rightarrow> parseDate h dateString
      | Some (amountStr, unit) \<Rightarrow>
          (let amount = parseInt10 amountStr
           in if unit = CHR ''h''
                then setHours (localTZA h) now (getHours (localTZA h) now - amount)
              else if unit = CHR ''d''
                then setDate (localTZA h) now (getDate (localTZA h) now - amount)
              else if unit = CHR ''w''
                then setDate (localTZA h) now (getDate (localTZA h) now - amount * 7)
              else if unit = CHR ''m''
                then setMonth (localTZA h) now (getMonth (localTZA h) now - amount)
              else Some now))"

text \<open>\<open>date.toISOString().replace("T", " ").replace("Z", "")\<close>.\<close>

definition formatDateForHogQL :: "date \<Rightarrow> error + string" where
  "formatDateForHogQL d =
     (case toISOString d of
        Inl e \<Rightarrow> Inl e
      | Inr s \<Rightarrow> Inr (replaceFirst (CHR ''Z'') [] (replaceFirst (CHR ''T'') '' '' s)))"

text \<open>The literal that a valid time value is formatted to.\<close>

definition hogqlLiteral :: "int \<Rightarrow> string" where
  "hogqlLiteral t = replaceFirst (CHR ''Z'') [] (replaceFirst (CHR ''T'') '' '' (isoText t))"

section \<open>The timestamp clause\<close>

text \<open>
  \<open>from\<close> and \<open>to\<close> are \<open>string | null | undefined\<close>: \<open>None\<close> stands for both
  \<open>null\<close> and \<open>undefined\<close>, which the program never tells apart. A value is truthy
  when it is a non-empty text.
\<close>

record TimeframeOptions =
  tf_from :: "string option"
  tf_to :: "string option"

definition truthy :: "string option \<Rightarrow> bool" where
  "truthy v = (case v of None \<Rightarrow> False | Some s \<Rightarrow> s \<noteq> [])"

fun joinWith :: "string \<Rightarrow> string list \<Rightarrow> string" where
  "joinWith sep [] = []"
| "joinWith sep [x] = x"
| "joinWith sep (x # y # ys) = x @ sep @ joinWith sep (y # ys)"

text \<open>
  One \<open>if (options.from) { ... clauses.push(...) }\<close> block: the clauses it pushes (none or
  one), or the error thrown while formatting. \<open>resolve\<close> is the variant's
  \<open>parseRelativeDate\<close>, already given its reading of the clock.
\<close>

definition boundClause :: "(string \<Rightarrow> date) \<Rightarrow> string \<Rightarrow> string option \<Rightarrow> error + string list" where
  "boundClause resolve cmp v =
     (if truthy v then
        (case formatDateForHogQL (resolve (the v)) of
           Inl e \<Rightarrow> Inl e
         | Inr lit \<Rightarrow> Inr [''timestamp '' @ cmp @ '' '' @ [quote] @ lit @ [quote]])
      else Inr [])"

text \<open>
  \<open>buildTimestampClause\<close>, the same text in both variants; \<open>resolveFrom\<close> and
  \<open>resolveTo\<close> are the two calls of \<open>parseRelativeDate\<close>, each with its own reading of
  the clock.
\<close>

definition buildClause :: "(string \<Rightarrow> date) \<Rightarrow> (string \<Rightarrow> date) \<Rightarrow> TimeframeOptions \<Rightarrow> error + string" where
  "buildClause resolveFrom resolveTo options =
     (case boundClause resolveFrom ''>='' (tf_from options) of
        Inl e \<Rightarrow> Inl e
      | Inr c1 \<Rightarrow>
          (case boundClause resolveTo ''<='' (tf_to options) of
             Inl e \<Rightarrow> Inl e
           | Inr c2 \<Rightarrow>
               (let clauses = c1 @ c2
                in Inr (if length clauses > 0 then '' AND '' @ joinWith '' AND '' clauses
                        else []))))"

definition buildTimestampClause :: "host \<Rightarrow> int \<Rightarrow> int \<Rightarrow> TimeframeOptions \<Rightarrow> error + string" where
  "buildTimestampClause h nowFrom nowTo options =
     buildClause (parseRelativeDate h nowFrom) (parseRelativeDate h nowTo) options"

definition buildTimestampClause_client :: "host \<Rightarrow> int \<Rightarrow> int \<Rightarrow> TimeframeOptions \<Rightarrow> error + string" where
  "buildTimestampClause_client h nowFrom nowTo options =
     buildClause (parseRelativeDate_client h nowFrom) (parseRelativeDate_client h nowTo) options"

section \<open>Data model\<close>

text \<open>
  The records of \<open>types.ts\<close> and \<open>config.ts\<close>. A field named \<open>id\<close> or a second field
  named \<open>properties\<close> cannot be declared, so the fields of a person carry a prefix, and
  so do the properties of an event. \<open>properties\<close> is typed \<open>Record<string, unknown>\<close> by
  an unchecked cast, so the model keeps whatever JSON value the code puts there.
\<close>

record Person =
  person_id :: string
  distinctIds :: "string list"
  person_properties :: json

record PostHogEvent =
  event :: string
  timestamp :: string
  event_properties :: json

record 'row HogQLQueryResult =
  columns :: "string list"
  types :: "string list"
  results :: "'row list"
  hasMore :: bool
  limit :: int
  offset :: int

datatype PostHogRegion = US | EU

record PostHogConfig =
  personalApiKey :: string
  projectId :: string
  region :: PostHogRegion
  apiBaseUrl :: string

section \<open>The query texts\<close>

text \<open>
  The three template literals, with their line breaks and indentation, as functions of
  the texts interpolated into them.
\<close>

definition personByEmailText :: "string \<Rightarrow> string" where
  "personByEmailText escapedEmail =
     ''\<newline>      SELECT id, properties\<newline>      FROM persons\<newline>      WHERE properties.email = ''
       @ [quote] @ escapedEmail @ [quote] @ ''\<newline>      LIMIT 1\<newline>    ''"

definition personsByEventText :: "string \<Rightarrow> string \<Rightarrow> int \<Rightarrow> string" where
  "personsByEventText escapedEventName timestampClause effectiveLimit =
     ''\<newline>      SELECT DISTINCT person.id, person.properties\<newline>      FROM events\<newline>      WHERE event = ''
       @ [quote] @ escapedEventName @ [quote] @ timestampClause
       @ ''\<newline>      ORDER BY timestamp DESC\<newline>      LIMIT '' @ showInt effectiveLimit
       @ ''\<newline>    ''"

definition personEventsText :: "string \<Rightarrow> string \<Rightarrow> string \<Rightarrow> int \<Rightarrow> string" where
  "personEventsText escapedPersonId eventTypeClause timestampClause effectiveLimit =
     ''\<newline>      SELECT event, timestamp, properties\<newline>      FROM events\<newline>      WHERE person_id = ''
       @ [quote] @ escapedPersonId @ [quote] @ eventTypeClause @ timestampClause
       @ ''\<newline>      ORDER BY timestamp DESC\<newline>      LIMIT '' @ showInt effectiveLimit
       @ ''\<newline>    ''"

text \<open>\<open>` AND event = '${...}'`\<close>, the filter on the event column.\<close>

definition eventFilter :: "string \<Rightarrow> string" where
  "eventFilter escapedEventType = '' AND event = '' @ [quote] @ escapedEventType @ [quote]"

text \<open>
  The part of each operation that comes before \<open>executeQuery\<close>: the query it builds, or
  the error thrown while building it. \<open>limit ?? 10\<close>, \<open>from ?? "30d"\<close>: \<open>None\<close> (null or
  undefined) is replaced, any other value is kept. The limit is a whole number, rendered in
  decimal.
\<close>

definition personByEmailQuery :: "string \<Rightarrow> string" where
  "personByEmailQuery email = personByEmailText (escapeHogQLString email)"

definition personsByEventQuery ::
  "host \<Rightarrow> int \<Rightarrow> int \<Rightarrow> string \<Rightarrow> int option \<Rightarrow> string option \<Rightarrow> string option \<Rightarrow> error + string" where
  "personsByEventQuery h nowFrom nowTo eventName lim frm to =
     (let escapedEventName = escapeHogQLString eventName
      in case buildTimestampClause h nowFrom nowTo \<lparr>tf_from = frm, tf_to = to\<rparr> of
           Inl e \<Rightarrow> Inl e
         | Inr timestampClause \<Rightarrow>
             (let effectiveLimit = (case lim of None \<Rightarrow> 10 | Some n \<Rightarrow> n)
              in Inr (personsByEventText escapedEventName timestampClause effectiveLimit)))"

definition personEventsQuery ::
  "host \<Rightarrow> int \<Rightarrow> int \<Rightarrow> string \<Rightarrow> int option \<Rightarrow> string option \<Rightarrow> string option \<Rightarrow> string option
     \<Rightarrow> error + string" where
  "personEventsQuery h nowFrom nowTo personId lim eventType frm to =
     (let escapedPersonId = escapeHogQLString personId;
          effectiveFrom = (case frm of None \<Rightarrow> ''30d'' | Some f \<Rightarrow> f)
      in case buildTimestampClause h nowFrom nowTo \<lparr>tf_from = Some effectiveFrom, tf_to = to\<rparr> of
           Inl e \<Rightarrow> Inl e
         | Inr timestampClause \<Rightarrow>
             (let eventTypeClause =
                    (if truthy eventType then eventFilter (escapeHogQLString (the eventType))
                     else []);
                  effectiveLimit = (case lim of None \<Rightarrow> 50 | Some n \<Rightarrow> n)
              in Inr (personEventsText escapedPersonId eventTypeClause timestampClause
                        effectiveLimit)))"

text \<open>The same three in \<open>client.ts\<close>.\<close>

definition personByEmailQuery_client :: "string \<Rightarrow> string" where
  "personByEmailQuery_client email = personByEmailText (escapeQuote_client email)"

definition personsByEventQuery_client ::
  "host \<Rightarrow> int \<Rightarrow> int \<Rightarrow> string \<Rightarrow> int option \<Rightarrow> string option \<Rightarrow> string option \<Rightarrow> error + string" where
  "personsByEventQuery_client h nowFrom nowTo eventName lim frm to =
     (case buildTimestampClause_client h nowFrom nowTo \<lparr>tf_from = frm, tf_to = to\<rparr> of
        Inl e \<Rightarrow> Inl e
      | Inr timestampClause \<Rightarrow>
          (let effectiveLimit = (case lim of None \<Rightarrow> 10 | Some n \<Rightarrow> n)
           in Inr (personsByEventText (escapeQuote_client eventName) timestampClause
                     effectiveLimit)))"

definition personEventsQuery_client ::
  "host \<Rightarrow> int \<Rightarrow> int \<Rightarrow> string \<Rightarrow> int option \<Rightarrow> string option \<Rightarrow> string option \<Rightarrow> string option
     \<Rightarrow> error + string" where
  "personEventsQuery_client h nowFrom nowTo personId lim eventType frm to =
     (let effectiveFrom = (case frm of None \<Rightarrow> ''30d'' | Some f \<Rightarrow> f)
      in case buildTimestampClause_client h nowFrom nowTo
                \<lparr>tf_from = Some effectiveFrom, tf_to = to\<rparr> of
           Inl e \<Rightarrow> Inl e
         | Inr timestampClause \<Rightarrow>
             (let eventTypeClause =
                    (if truthy eventType then eventFilter (escapeQuote_client (the eventType))
                     else []);
                  effectiveLimit = (case lim of None \<Rightarrow> 50 | Some n \<Rightarrow> n)
              in Inr (personEventsText (escapeQuote_client personId) eventTypeClause
                        timestampClause effectiveLimit)))"

section \<open>The transport client\<close>

text \<open>
  A request is the \<open>fetch\<close> call of \<open>executeQuery\<close>: always a POST of a JSON body
  \<open>{query: {kind: "HogQLQuery", query}}\<close>, so only the address, the credential header and
  the query text vary. The remote side answers a request, knowing the requests made
  before it, either by a failure of the connection (\<open>fetch\<close> rejects with a
  \<open>TypeError\<close>) or by a response: its status, its body as text, and its body decoded as
  the result envelope at the row type the caller casts it to (\<open>None\<close> when
  \<open>response.json()\<close> rejects). \<open>ok\<close> is what the Fetch standard defines: a status from 200
  to 299. The log of requests is the state that the operations pass along. The
  \<open>console.log\<close> under \<open>process.env.DEBUG\<close> changes nothing that is modelled.
\<close>

record request =
  url :: string
  authorization :: string
  queryText :: string

record 'row response =
  status :: nat
  bodyText :: string
  bodyJson :: "'row HogQLQueryResult option"

datatype 'row outcome = NetworkFailure | Responded "'row response"

type_synonym 'row remote = "request list \<Rightarrow> request \<Rightarrow> 'row outcome"

definition ok :: "'row response \<Rightarrow> bool" where
  "ok r = (200 \<le> status r \<and> status r \<le> 299)"

definition apiErrorMessage :: "'row response \<Rightarrow> string" where
  "apiErrorMessage r = ''PostHog API error ('' @ showNat (status r) @ ''): '' @ bodyText r"

definition queryRequest :: "PostHogConfig \<Rightarrow> string \<Rightarrow> request" where
  "queryRequest config query =
     \<lparr>url = apiBaseUrl config @ ''/api/projects/'' @ projectId config @ ''/query/'',
      authorization = ''Bearer '' @ personalApiKey config,
      queryText = query\<rparr>"

text \<open>
  The remote side refuses a request with the message \<open>m\<close>: it answers with a status
  outside 200 to 299, and \<open>m\<close> is the message that \<open>executeQuery\<close> builds from the status
  and the body text of that answer.
\<close>

definition refusedBy :: "'row remote \<Rightarrow> request list \<Rightarrow> request \<Rightarrow> string \<Rightarrow> bool" where
  "refusedBy remote log req m =
     (case remote log req of
        NetworkFailure \<Rightarrow> False
      | Responded r \<Rightarrow> \<not> ok r \<and> m = apiErrorMessage r)"

definition executeQuery ::
  "PostHogConfig \<Rightarrow> 'row remote \<Rightarrow> string \<Rightarrow> request list
     \<Rightarrow> (error + 'row HogQLQueryResult) \<times> request list" where
  "executeQuery config remote query log =
     (let req = queryRequest config query;
          log' = log @ [req]
      in case remote log req of
           NetworkFailure \<Rightarrow> (Inl TypeError, log')
         | Responded r \<Rightarrow>
             if \<not> ok r then (Inl (Error (apiErrorMessage r)), log')
             else (case bodyJson r of
                     None \<Rightarrow> (Inl SyntaxError, log')
                   | Some result \<Rightarrow> (Inr result, log')))"

section \<open>Rows to records\<close>

text \<open>
  \<open>safeParseJson\<close> (escaping variant only): the parsed value when it is an object that
  is neither \<open>null\<close> nor an array, the empty object otherwise and when parsing throws.
\<close>

definition safeParseJson :: "host \<Rightarrow> string \<Rightarrow> json" where
  "safeParseJson h js =
     (case parseJson h js of
        None \<Rightarrow> JObj []
      | Some parsed \<Rightarrow> (case parsed of JObj kvs \<Rightarrow> JObj kvs | _ \<Rightarrow> JObj []))"

text \<open>
  \<open>JSON.parse(propertiesJson) as Record<string, unknown>\<close> of \<open>client.ts\<close>: the parsed
  value whatever it is, and the \<open>SyntaxError\<close> is not caught.
\<close>

definition parseJson_client :: "host \<Rightarrow> string \<Rightarrow> error + json" where
  "parseJson_client h js = (case parseJson h js of None \<Rightarrow> Inl SyntaxError | Some v \<Rightarrow> Inr v)"

definition personOfRow :: "host \<Rightarrow> string \<times> string \<Rightarrow> Person" where
  "personOfRow h row =
     (case row of (i, propertiesJson) \<Rightarrow>
        \<lparr>person_id = i, distinctIds = [], person_properties = safeParseJson h propertiesJson\<rparr>)"

definition eventOfRow :: "host \<Rightarrow> string \<times> string \<times> string \<Rightarrow> PostHogEvent" where
  "eventOfRow h row =
     (case row of (ev, ts, propertiesJson) \<Rightarrow>
        \<lparr>event = ev, timestamp = ts, event_properties = safeParseJson h propertiesJson\<rparr>)"

definition personOfRow_client :: "host \<Rightarrow> string \<times> string \<Rightarrow> error + Person" where
  "personOfRow_client h row =
     (case row of (i, propertiesJson) \<Rightarrow>
        (case parseJson_client h propertiesJson of
           Inl e \<Rightarrow> Inl e
         | Inr props \<Rightarrow> Inr \<lparr>person_id = i, distinctIds = [], person_properties = props\<rparr>))"

definition eventOfRow_client :: "host \<Rightarrow> string \<times> string \<times> string \<Rightarrow> error + PostHogEvent" where
  "eventOfRow_client h row =
     (case row of (ev, ts, propertiesJson) \<Rightarrow>
        (case parseJson_client h propertiesJson of
           Inl e \<Rightarrow> Inl e
         | Inr props \<Rightarrow> Inr \<lparr>event = ev, timestamp = ts, event_properties = props\<rparr>))"

text \<open>\<open>rows.map(f)\<close> when \<open>f\<close> can throw: the first row that throws ends the loop.\<close>

fun mapRows :: "('a \<Rightarrow> error + 'b) \<Rightarrow> 'a list \<Rightarrow> error + 'b list" where
  "mapRows f [] = Inr []"
| "mapRows f (x # xs) =
     (case f x of
        Inl e \<Rightarrow> Inl e
      | Inr y \<Rightarrow> (case mapRows f xs of Inl e \<Rightarrow> Inl e | Inr ys \<Rightarrow> Inr (y # ys)))"

section \<open>The four operations, escaping variant\<close>

definition getPersonByEmail ::
  "PostHogConfig \<Rightarrow> host \<Rightarrow> (string \<times> string) remote \<Rightarrow> string \<Rightarrow> request list
     \<Rightarrow> (error + Person option) \<times> request list" where
  "getPersonByEmail config h remote email log =
     (case executeQuery config remote (personByEmailQuery email) log of
        (Inl e, log') \<Rightarrow> (Inl e, log')
      | (Inr result, log') \<Rightarrow>
          (case results result of
             [] \<Rightarrow> (Inr None, log')
           | row # _ \<Rightarrow> (Inr (Some (personOfRow h row)), log')))"

definition getPersonsByEvent ::
  "PostHogConfig \<Rightarrow> host \<Rightarrow> int \<Rightarrow> int \<Rightarrow> (string \<times> string) remote \<Rightarrow> string \<Rightarrow> int option
     \<Rightarrow> string option \<Rightarrow> string option \<Rightarrow> request list \<Rightarrow> (error + Person list) \<times> request list" where
  "getPersonsByEvent config h nowFrom nowTo remote eventName lim frm to log =
     (case personsByEventQuery h nowFrom nowTo eventName lim frm to of
        Inl e \<Rightarrow> (Inl e, log)
      | Inr query \<Rightarrow>
          (case executeQuery config remote query log of
             (Inl e, log') \<Rightarrow> (Inl e, log')
           | (Inr result, log') \<Rightarrow> (Inr (map (personOfRow h) (results result)), log')))"

definition getPersonEvents ::
  "PostHogConfig \<Rightarrow> host \<Rightarrow> int \<Rightarrow> int \<Rightarrow> (string \<times> string \<times> string) remote \<Rightarrow> string \<Rightarrow> int option
     \<Rightarrow> string option \<Rightarrow> string option \<Rightarrow> string option \<Rightarrow> request list
     \<Rightarrow> (error + PostHogEvent list) \<times> request list" where
  "getPersonEvents config h nowFrom nowTo remote personId lim eventType frm to log =
     (case personEventsQuery h nowFrom nowTo personId lim eventType frm to of
        Inl e \<Rightarrow> (Inl e, log)
      | Inr query \<Rightarrow>
          (case executeQuery config remote query log of
             (Inl e, log') \<Rightarrow> (Inl e, log')
           | (Inr result, log') \<Rightarrow> (Inr (map (eventOfRow h) (results result)), log')))"

text \<open>
  \<open>eventsLimit = 50\<close> replaces \<open>undefined\<close> only, and \<open>getPersonEvents\<close> then replaces
  \<open>null\<close> by the same 50, so \<open>None\<close> is passed on as it is.
\<close>

definition getPersonWithEvents ::
  "PostHogConfig \<Rightarrow> host \<Rightarrow> int \<Rightarrow> int \<Rightarrow> (string \<times> string) remote
     \<Rightarrow> (string \<times> string \<times> string) remote \<Rightarrow> string \<Rightarrow> int option
     \<Rightarrow> string option \<Rightarrow> string option \<Rightarrow> string option \<Rightarrow> request list
     \<Rightarrow> (error + (Person \<times> PostHogEvent list) option) \<times> request list" where
  "getPersonWithEvents config h nowFrom nowTo personsRemote eventsRemote email eventsLimit
       eventType frm to log =
     (case getPersonByEmail config h personsRemote email log of
        (Inl e, log') \<Rightarrow> (Inl e, log')
      | (Inr None, log') \<Rightarrow> (Inr None, log')
      | (Inr (Some person), log') \<Rightarrow>
          (case getPersonEvents config h nowFrom nowTo eventsRemote (person_id person)
                  eventsLimit eventType frm to log' of
             (Inl e, log'') \<Rightarrow> (Inl e, log'')
           | (Inr events, log'') \<Rightarrow> (Inr (Some (person, events)), log'')))"

section \<open>The four operations, \<open>client.ts\<close>\<close>

definition getPersonByEmail_client ::
  "PostHogConfig \<Rightarrow> host \<Rightarrow> (string \<times> string) remote \<Rightarrow> string \<Rightarrow> request list
     \<Rightarrow> (error + Person option) \<times> request list" where
  "getPersonByEmail_client config h remote email log =
     (case executeQuery config remote (personByEmailQuery_client email) log of
        (Inl e, log') \<Rightarrow> (Inl e, log')
      | (Inr result, log') \<Rightarrow>
          (case results result of
             [] \<Rightarrow> (Inr None, log')
           | row # _ \<Rightarrow>
               (case personOfRow_client h row of
                  Inl e \<Rightarrow> (Inl e, log')
                | Inr person \<Rightarrow> (Inr (Some person), log'))))"

definition getPersonsByEvent_client ::
  "PostHogConfig \<Rightarrow> host \<Rightarrow> int \<Rightarrow> int \<Rightarrow> (string \<times> string) remote \<Rightarrow> string \<Rightarrow> int option
     \<Rightarrow> string option \<Rightarrow> string option \<Rightarrow> request list \<Rightarrow> (error + Person list) \<times> request list" where
  "getPersonsByEvent_client config h nowFrom nowTo remote eventName lim frm to log =
     (case personsByEventQuery_client h nowFrom nowTo eventName lim frm to of
        Inl e \<Rightarrow> (Inl e, log)
      | Inr query \<Rightarrow>
          (case executeQuery config remote query log of
             (Inl e, log') \<Rightarrow> (Inl e, log')
           | (Inr result, log') \<Rightarrow> (mapRows (personOfRow_client h) (results result), log')))"

definition getPersonEvents_client ::
  "PostHogConfig \<Rightarrow> host \<Rightarrow> int \<Rightarrow> int \<Rightarrow> (string \<times> string \<times> string) remote \<Rightarrow> string \<Rightarrow> int option
     \<Rightarrow> string option \<Rightarrow> string option \<Rightarrow> string option \<Rightarrow> request list
     \<Rightarrow> (error + PostHogEvent list) \<times> request list" where
  "getPersonEvents_client config h nowFrom nowTo remote personId lim eventType frm to log =
     (case personEventsQuery_client h nowFrom nowTo personId lim eventType frm to of
        Inl e \<Rightarrow> (Inl e, log)
      | Inr query \<Rightarrow>
          (case executeQuery config remote query log of
             (Inl e, log') \<Rightarrow> (Inl e, log')
           | (Inr result, log') \<Rightarrow> (mapRows (eventOfRow_client h) (results result), log')))"

definition getPersonWithEvents_client ::
  "PostHogConfig \<Rightarrow> host \<Rightarrow> int \<Rightarrow> int \<Rightarrow> (string \<times> string) remote
     \<Rightarrow> (string \<times> string \<times> string) remote \<Rightarrow> string \<Rightarrow> int option
     \<Rightarrow> string option \<Rightarrow> string option \<Rightarrow> string option \<Rightarrow> request list
     \<Rightarrow> (error + (Person \<times> PostHogEvent list) option) \<times> request list" where
  "getPersonWithEvents_client config h nowFrom nowTo personsRemote eventsRemote email
       eventsLimit eventType frm to log =
     (case getPersonByEmail_client config h personsRemote email log of
        (Inl e, log') \<Rightarrow> (Inl e, log')
      | (Inr None, log') \<Rightarrow> (Inr None, log')
      | (Inr (Some person), log') \<Rightarrow>
          (case getPersonEvents_client config h nowFrom nowTo eventsRemote (person_id person)
                  eventsLimit eventType frm to log' of
             (Inl e, log'') \<Rightarrow> (Inl e, log'')
           | (Inr events, log'') \<Rightarrow> (Inr (Some (person, events)), log'')))"

section \<open>A host and a remote side for the worked examples\<close>

text \<open>
  The examples run on a host one hour east of UTC. Its two parsers are tabulated on the
  texts the examples use, with the values that \<open>new Date\<close> and \<open>JSON.parse\<close> give for
  them; the other texts the examples use (\<open>garbage\<close>, \<open>not json\<close>) are rejected by every
  parser.
\<close>

definition exampleDates :: "(string \<times> int) list" where
  "exampleDates = [(''2024-01-31'', 1706659200000), (''2024-01-01T00:00:00Z'', 1704067200000)]"

definition exampleJson :: "(string \<times> json) list" where
  "exampleJson =
     [(''{}'', JObj []),
      (''{\"plan\":\"pro\"}'', JObj [(''plan'', JStr ''pro'')]),
      (''[1,2]'', JArr [JNum 1 0, JNum 2 0]),
      (''null'', JNull),
      (''7'', JNum 7 0)]"

definition exampleHost :: host where
  "exampleHost = \<lparr>localTZA = 3600000, parseDate = map_of exampleDates,
                    parseJson = map_of exampleJson\<rparr>"

definition exampleConfig :: PostHogConfig where
  "exampleConfig = \<lparr>personalApiKey = ''phx_key'', projectId = ''12345'', region = US,
                      apiBaseUrl = ''https://us.posthog.com''\<rparr>"

definition envelope :: "'row list \<Rightarrow> 'row HogQLQueryResult" where
  "envelope rows = \<lparr>columns = [], types = [], results = rows, hasMore = False,
                     limit = 100, offset = 0\<rparr>"

text \<open>A remote side that answers every request with status 200 and the given rows.\<close>

definition answering :: "'row list \<Rightarrow> 'row remote" where
  "answering rows log req =
     Responded \<lparr>status = 200, bodyText = [], bodyJson = Some (envelope rows)\<rparr>"

text \<open>A remote side that answers every request with the given status and body text.\<close>

definition refusing :: "nat \<Rightarrow> string \<Rightarrow> 'row remote" where
  "refusing st body log req = Responded \<lparr>status = st, bodyText = body, bodyJson = None\<rparr>"

section \<open>Properties of the escaping\<close>

lemma replaceAll_append:
  "replaceAll c rep (xs @ ys) = replaceAll c rep xs @ replaceAll c rep ys"
  by (simp add: replaceAll_def)

lemma replaceAll_Cons:
  "replaceAll c rep (x # xs) = (if x = c then rep else [x]) @ replaceAll c rep xs"
  by (simp add: replaceAll_def)

lemma replaceAll_Nil: "replaceAll c rep [] = []"
  by (simp add: replaceAll_def)

lemma escapeHogQLString_Nil: "escapeHogQLString [] = []"
  by (simp add: escapeHogQLString_def replaceAll_Nil)

lemma escapeHogQLString_Cons:
  "escapeHogQLString (c # cs) = escapeChar c @ escapeHogQLString cs"
  by (simp add: escapeHogQLString_def escapeChar_def replaceAll_Cons replaceAll_append
      replaceAll_Nil backslash_def quote_def nul_def newline_def creturn_def tab_def)

lemma escapeHogQLString_single_pass:
  "escapeHogQLString s = concat (map escapeChar s)"
  by (induction s) (simp_all add: escapeHogQLString_Nil escapeHogQLString_Cons)

lemma unescapeLiteral_escapeChar:
  "unescapeLiteral (escapeChar c @ rest) = map_option ((#) c) (unescapeLiteral rest)"
proof (cases rest)
  case Nil
  then show ?thesis
    by (simp add: escapeChar_def decodeEscape_def backslash_def quote_def nul_def
        newline_def creturn_def tab_def)
next
  case (Cons d ds)
  then show ?thesis
    by (simp add: escapeChar_def decodeEscape_def backslash_def quote_def nul_def
        newline_def creturn_def tab_def)
qed

lemma unescapeLiteral_escape: "unescapeLiteral (escapeHogQLString s) = Some s"
  by (induction s)
    (simp_all add: escapeHogQLString_Nil escapeHogQLString_Cons unescapeLiteral_escapeChar)

lemma unescapedQuote_escapeChar:
  "unescapedQuote (escapeChar c @ rest) = unescapedQuote rest"
proof (cases rest)
  case Nil
  then show ?thesis
    by (simp add: escapeChar_def backslash_def quote_def nul_def newline_def creturn_def
        tab_def)
next
  case (Cons d ds)
  then show ?thesis
    by (simp add: escapeChar_def backslash_def quote_def nul_def newline_def creturn_def
        tab_def)
qed

lemma no_unescapedQuote_escape: "\<not> unescapedQuote (escapeHogQLString s)"
  by (induction s)
    (simp_all add: escapeHogQLString_Nil escapeHogQLString_Cons unescapedQuote_escapeChar)

lemma escapeHogQLString_inj: "inj escapeHogQLString"
proof (rule injI)
  fix s t
  assume "escapeHogQLString s = escapeHogQLString t"
  then have "unescapeLiteral (escapeHogQLString s) = unescapeLiteral (escapeHogQLString t)"
    by simp
  then show "s = t"
    by (simp add: unescapeLiteral_escape)
qed

lemma escaping_variant_queries:
  "personByEmailQuery email = personByEmailText (concat (map escapeChar email))"
  "personsByEventQuery h nowFrom nowTo eventName lim frm to = Inr q \<Longrightarrow>
     \<exists>clause. q = personsByEventText (concat (map escapeChar eventName)) clause
                   (case lim of None \<Rightarrow> 10 | Some n \<Rightarrow> n)"
  "personEventsQuery h nowFrom nowTo personId lim eventType frm to = Inr q \<Longrightarrow>
     \<exists>clause. q = personEventsText (concat (map escapeChar personId))
                   (if truthy eventType
                    then eventFilter (concat (map escapeChar (the eventType))) else [])
                   clause (case lim of None \<Rightarrow> 50 | Some n \<Rightarrow> n)"
  by (auto simp: personByEmailQuery_def personsByEventQuery_def personEventsQuery_def
      escapeHogQLString_single_pass Let_def split: sum.splits)

text \<open>
  C1. Every free-form text interpolated into a query is first escaped by the six
  replacements, backslash first. The escaping variant does so
  (\<open>escaping_variant_queries\<close>, \<open>escapeHogQLString_single_pass\<close>); \<open>client.ts\<close> only
  replaces the single quote. For the e-mail address made of one backslash, \<open>client.ts\<close>
  puts the backslash into the query as it is, where the escaping variant puts two.
\<close>

theorem client_leaves_backslash_unescaped:
  "personByEmailQuery_client [backslash] = personByEmailText [backslash]
   \<and> personByEmailQuery [backslash] = personByEmailText [backslash, backslash]"
  by (simp add: personByEmailQuery_client_def personByEmailQuery_def escapeQuote_client_def
      escapeHogQLString_def replaceAll_def backslash_def quote_def nul_def newline_def
      creturn_def tab_def)

text \<open>
  C2. Reading back the escaped form gives the text again, and the escaped form holds no
  unescaped quote. This holds of \<open>escapeHogQLString\<close> (\<open>unescapeLiteral_escape\<close>,
  \<open>no_unescapedQuote_escape\<close>, \<open>escapeHogQLString_inj\<close>). With the replacement of
  \<open>client.ts\<close>, the text made of a backslash and a quote becomes backslash, backslash,
  quote: the quote is not escaped any more and the literal cannot be read back.
\<close>

theorem client_quote_reaches_query:
  "escapeQuote_client [backslash, quote] = [backslash, backslash, quote]
   \<and> unescapedQuote (escapeQuote_client [backslash, quote])
   \<and> unescapeLiteral (escapeQuote_client [backslash, quote]) = None"
  by (simp add: escapeQuote_client_def replaceAll_def decodeEscape_def backslash_def quote_def)

section \<open>Properties of the row mapping\<close>

lemma safeParseJson_malformed: "parseJson h js = None \<Longrightarrow> safeParseJson h js = JObj []"
  by (simp add: safeParseJson_def)

lemma safeParseJson_not_object:
  "parseJson h js = Some v \<Longrightarrow> (\<forall>kvs. v \<noteq> JObj kvs) \<Longrightarrow> safeParseJson h js = JObj []"
  by (cases v) (simp_all add: safeParseJson_def)

lemma safeParseJson_object:
  "parseJson h js = Some (JObj kvs) \<Longrightarrow> safeParseJson h js = JObj kvs"
  by (simp add: safeParseJson_def)

lemma safeParseJson_is_object: "\<exists>kvs. safeParseJson h js = JObj kvs"
  by (simp add: safeParseJson_def split: option.split json.split)

text \<open>
  C3. A properties column that is not JSON, or is JSON other than an object, gives empty
  properties and no error. This holds of the escaping variant (\<open>safeParseJson_malformed\<close>,
  \<open>safeParseJson_not_object\<close>). In \<open>client.ts\<close> the parse is not guarded: on a row whose
  properties are \<open>not json\<close> the lookup ends with the \<open>SyntaxError\<close>, and on a row whose
  properties are the array \<open>[1,2]\<close> the person carries the array.
\<close>

theorem client_row_mapping_unguarded:
  "fst (getPersonByEmail_client exampleConfig exampleHost
          (answering [(''p1'', ''not json'')]) ''a@b.c'' []) = Inl SyntaxError
   \<and> fst (getPersonByEmail_client exampleConfig exampleHost
          (answering [(''p1'', ''[1,2]'')]) ''a@b.c'' [])
       = Inr (Some \<lparr>person_id = ''p1'', distinctIds = [],
                      person_properties = JArr [JNum 1 0, JNum 2 0]\<rparr>)
   \<and> fst (getPersonByEmail exampleConfig exampleHost
          (answering [(''p1'', ''not json'')]) ''a@b.c'' [])
       = Inr (Some \<lparr>person_id = ''p1'', distinctIds = [], person_properties = JObj []\<rparr>)"
  by (simp add: getPersonByEmail_client_def getPersonByEmail_def executeQuery_def
      answering_def ok_def envelope_def personOfRow_client_def personOfRow_def
      parseJson_client_def safeParseJson_def exampleHost_def exampleJson_def)

section \<open>Properties of the Date model\<close>

lemma monthOfDay_range: "0 \<le> monthOfDay l d \<and> monthOfDay l d \<le> 11"
  by (simp add: monthOfDay_def)

lemma MonthFromTime_range: "0 \<le> MonthFromTime t \<and> MonthFromTime t \<le> 11"
  by (simp add: MonthFromTime_def monthOfDay_range)

lemma MakeDay_of_fields:
  "MakeDay (YearFromTime t) (MonthFromTime t) dt = Day t - DateFromTime t + dt"
proof -
  have "MonthFromTime t div 12 = 0" "MonthFromTime t mod 12 = MonthFromTime t"
    using MonthFromTime_range [of t] by simp_all
  then show ?thesis
    by (simp add: MakeDay_def Let_def DateFromTime_def DayWithinYear_def InLeapYear_def)
qed

lemma MakeDate_Day: "MakeDate (Day t - n) (TimeWithinDay t) = t - n * msPerDay"
  by (simp add: MakeDate_def Day_def TimeWithinDay_def algebra_simps)

lemma setDate_getDate:
  "setDate tza t (getDate tza t - n) = TimeClip (t - n * msPerDay)"
  by (simp add: setDate_def getDate_def Let_def MakeDay_of_fields MakeDate_Day
      LocalTime_def UTC_def)






































section \<open>Properties of the date resolver\<close>

lemma matchRelative_unit:
  "ds \<noteq> [] \<Longrightarrow> list_all isDigit ds \<Longrightarrow> u \<in> set ''dhwm'' \<Longrightarrow> matchRelative (ds @ [u]) = Some (ds, u)"
  by (simp add: matchRelative_def)

lemma matchRelative_SomeD:
  "matchRelative s = Some (ds, u) \<Longrightarrow> s = ds @ [u] \<and> ds \<noteq> [] \<and> list_all isDigit ds \<and> u \<in> set ''dhwm''"
proof -
  assume m: "matchRelative s = Some (ds, u)"
  then have ne: "s \<noteq> []" and parts: "ds = butlast s" "u = last s"
    and ok: "butlast s \<noteq> []" "list_all isDigit (butlast s)" "last s \<in> set ''dhwm''"
    by (simp_all add: matchRelative_def split: if_splits)
  from ne have "s = butlast s @ [last s]" by simp
  with parts ok show ?thesis by simp
qed






lemma resolve_days:
  "ds \<noteq> [] \<Longrightarrow> list_all isDigit ds \<Longrightarrow>
     parseRelativeDate h now (ds @ ''d'') = TimeClip (now - parseInt10 ds * 86400000)
     \<and> parseRelativeDate_client h now (ds @ ''d'') = TimeClip (now - parseInt10 ds * 86400000)"
  by (simp add: parseRelativeDate_def parseRelativeDate_client_def matchRelative_unit
      setDate_getDate msPerDay_def mult.commute)



lemma parseInt10_30: "parseInt10 ''30'' = 30"
  by (simp add: parseInt10_def digitVal_def)







section \<open>Properties of the timestamp clause\<close>

lemma formatDateForHogQL_invalid: "formatDateForHogQL None = Inl RangeError"
  by (simp add: formatDateForHogQL_def toISOString_def)

lemma formatDateForHogQL_valid: "formatDateForHogQL (Some t) = Inr (hogqlLiteral t)"
  by (simp add: formatDateForHogQL_def toISOString_def hogqlLiteral_def)

lemma boundClause_unset: "\<not> truthy v \<Longrightarrow> boundClause resolve cmp v = Inr []"
  by (simp add: boundClause_def)

lemma boundClause_invalid:
  "s \<noteq> [] \<Longrightarrow> resolve s = None \<Longrightarrow> boundClause resolve cmp (Some s) = Inl RangeError"
  by (simp add: boundClause_def truthy_def formatDateForHogQL_invalid)

lemma boundClause_valid:
  "s \<noteq> [] \<Longrightarrow> resolve s = Some t \<Longrightarrow>
     boundClause resolve cmp (Some s) = Inr [''timestamp '' @ cmp @ '' '' @ [quote] @ hogqlLiteral t @ [quote]]"
  by (simp add: boundClause_def truthy_def formatDateForHogQL_valid)

lemma buildClause_from_invalid:
  "s \<noteq> [] \<Longrightarrow> resolveFrom s = None \<Longrightarrow>
     buildClause resolveFrom resolveTo \<lparr>tf_from = Some s, tf_to = to\<rparr> = Inl RangeError"
  by (simp add: buildClause_def boundClause_invalid)


lemma buildClause_from_only:
  "s \<noteq> [] \<Longrightarrow> resolveFrom s = Some t \<Longrightarrow> \<not> truthy to \<Longrightarrow>
     buildClause resolveFrom resolveTo \<lparr>tf_from = Some s, tf_to = to\<rparr>
       = Inr ('' AND timestamp >= '' @ [quote] @ hogqlLiteral t @ [quote])"
  by (simp add: buildClause_def boundClause_valid boundClause_unset)


text \<open>
  C5 as amended. For a text that does not match the relative pattern the resolver
  returns what the host's date parsing gives, in both variants, and raises nothing: an
  unparseable text gives the Invalid Date. Formatting the Invalid Date raises a
  \<open>RangeError\<close>, so a non-empty unparseable \<open>from\<close> makes the clause builder, and with it
  \<open>getPersonsByEvent\<close> and \<open>getPersonEvents\<close>, fail before any request is sent.
\<close>

theorem absolute_date_resolved:
  assumes "matchRelative s = None"
  shows
    "parseRelativeDate h now s = parseDate h s
     \<and> parseRelativeDate_client h now s = parseDate h s
     \<and> (s \<noteq> [] \<and> parseDate h s = None \<longrightarrow>
          formatDateForHogQL (parseRelativeDate h now s) = Inl RangeError
          \<and> buildTimestampClause h now nowTo \<lparr>tf_from = Some s, tf_to = to\<rparr> = Inl RangeError
          \<and> buildTimestampClause_client h now nowTo \<lparr>tf_from = Some s, tf_to = to\<rparr>
              = Inl RangeError
          \<and> getPersonsByEvent config h now nowTo remote eventName lim (Some s) to log
              = (Inl RangeError, log)
          \<and> getPersonsByEvent_client config h now nowTo remote eventName lim (Some s) to log
              = (Inl RangeError, log)
          \<and> getPersonEvents config h now nowTo remote' personId lim eventType (Some s) to log
              = (Inl RangeError, log)
          \<and> getPersonEvents_client config h now nowTo remote' personId lim eventType (Some s) to
                log = (Inl RangeError, log))"
proof -
  have r: "parseRelativeDate h now s = parseDate h s"
    "parseRelativeDate_client h now s = parseDate h s"
    using assms by (simp_all add: parseRelativeDate_def parseRelativeDate_client_def)
  {
    assume s: "s \<noteq> []" and p: "parseDate h s = None"
    have c: "buildTimestampClause h now nowTo \<lparr>tf_from = Some s, tf_to = to\<rparr> = Inl RangeError"
      "buildTimestampClause_client h now nowTo \<lparr>tf_from = Some s, tf_to = to\<rparr> = Inl RangeError"
      using s p r
      by (simp_all add: buildTimestampClause_def buildTimestampClause_client_def
          buildClause_from_invalid)
    then have "formatDateForHogQL (parseRelativeDate h now s) = Inl RangeError
          \<and> buildTimestampClause h now nowTo \<lparr>tf_from = Some s, tf_to = to\<rparr> = Inl RangeError
          \<and> buildTimestampClause_client h now nowTo \<lparr>tf_from = Some s, tf_to = to\<rparr>
              = Inl RangeError
          \<and> getPersonsByEvent config h now nowTo remote eventName lim (Some s) to log
              = (Inl RangeError, log)
          \<and> getPersonsByEvent_client config h now nowTo remote eventName lim (Some s) to log
              = (Inl RangeError, log)
          \<and> getPersonEvents config h now nowTo remote' personId lim eventType (Some s) to log
              = (Inl RangeError, log)
          \<and> getPersonEvents_client config h now nowTo remote' personId lim eventType (Some s) to
                log = (Inl RangeError, log)"
      using p r
      by (simp add: formatDateForHogQL_invalid getPersonsByEvent_def
          getPersonsByEvent_client_def getPersonEvents_def getPersonEvents_client_def
          personsByEventQuery_def personsByEventQuery_client_def personEventsQuery_def
          personEventsQuery_client_def)
  }
  with r show ?thesis by blast
qed

theorem absolute_date_resolved_witness:
  "parseRelativeDate exampleHost 1700000000000 ''2024-01-31'' = Some 1706659200000
   \<and> parseRelativeDate_client exampleHost 1700000000000 ''garbage'' = None
   \<and> buildTimestampClause exampleHost 1700000000000 1700000000000
        \<lparr>tf_from = Some ''garbage'', tf_to = None\<rparr> = Inl RangeError
   \<and> getPersonEvents_client exampleConfig exampleHost 1700000000000 1700000000000
        (answering []) ''p1'' None None (Some ''garbage'') None [] = (Inl RangeError, [])"
proof -
  have m: "matchRelative ''2024-01-31'' = None" "matchRelative ''garbage'' = None"
    by (simp_all add: matchRelative_def isDigit_def)
  have p: "parseDate exampleHost ''2024-01-31'' = Some 1706659200000"
    "''garbage'' \<noteq> [] \<and> parseDate exampleHost ''garbage'' = None"
    by (simp_all add: exampleHost_def exampleDates_def)
  show ?thesis
    using absolute_date_resolved [OF m(1), of exampleHost 1700000000000]
      absolute_date_resolved [OF m(2), of exampleHost 1700000000000 1700000000000 None
        exampleConfig "answering []" "[]" None "[]" "answering []" "''p1''" None]
      p
    by simp
qed

text \<open>
  C5 as stated fails: for the unparseable \<open>garbage\<close> no literal reaches the remote side,
  the operation ends with the \<open>RangeError\<close> and the log of requests stays empty.
\<close>

theorem unparseable_date_fails_request:
  "matchRelative ''garbage'' = None
   \<and> parseDate exampleHost ''garbage'' = None
   \<and> formatDateForHogQL (parseRelativeDate exampleHost 1700000000000 ''garbage'') = Inl RangeError
   \<and> getPersonEvents exampleConfig exampleHost 1700000000000 1700000000000
        (answering []) ''p1'' None None (Some ''garbage'') None [] = (Inl RangeError, [])
   \<and> getPersonsByEvent_client exampleConfig exampleHost 1700000000000 1700000000000
        (answering []) ''signup'' None (Some ''garbage'') None [] = (Inl RangeError, [])"
  by (simp add: matchRelative_def isDigit_def exampleHost_def exampleDates_def
      parseRelativeDate_def parseRelativeDate_client_def formatDateForHogQL_def toISOString_def
      getPersonEvents_def getPersonsByEvent_client_def personEventsQuery_def
      personsByEventQuery_client_def buildTimestampClause_def buildTimestampClause_client_def
      buildClause_def boundClause_def truthy_def)




lemma thirty_days_back:
  assumes "- 8637408000000000 \<le> now" and "now \<le> 8640000000000000"
  shows "parseRelativeDate h now ''30d'' = Some (now - 2592000000)"
    and "parseRelativeDate_client h now ''30d'' = Some (now - 2592000000)"
  using assms resolve_days [of "''30''" h now]
  by (simp_all add: isDigit_def parseInt10_30 TimeClip_def)

lemma example_literal: "hogqlLiteral 1697408000000 = ''2023-10-15 22:13:20.000''"
  by code_simp




section \<open>Properties of the query texts\<close>








lemma example_clause:
  "buildClause (parseRelativeDate exampleHost 1700000000000)
     (parseRelativeDate exampleHost 1700000000000) \<lparr>tf_from = Some ''30d'', tf_to = None\<rparr>
     = Inr ('' AND timestamp >= '' @ [quote] @ ''2023-10-15 22:13:20.000'' @ [quote])"
  "buildClause (parseRelativeDate_client exampleHost 1700000000000)
     (parseRelativeDate_client exampleHost 1700000000000) \<lparr>tf_from = Some ''30d'', tf_to = None\<rparr>
     = Inr ('' AND timestamp >= '' @ [quote] @ ''2023-10-15 22:13:20.000'' @ [quote])"
proof -
  have v: "- 8637408000000000 \<le> (1700000000000::int)" "(1700000000000::int) \<le> 8640000000000000"
    by simp_all
  note t = thirty_days_back [OF v, of exampleHost]
  have "buildClause (parseRelativeDate exampleHost 1700000000000)
     (parseRelativeDate exampleHost 1700000000000) \<lparr>tf_from = Some ''30d'', tf_to = None\<rparr>
     = Inr ('' AND timestamp >= '' @ [quote] @ hogqlLiteral (1700000000000 - 2592000000)
              @ [quote])"
    by (rule buildClause_from_only) (simp_all add: t truthy_def)
  then show "buildClause (parseRelativeDate exampleHost 1700000000000)
     (parseRelativeDate exampleHost 1700000000000) \<lparr>tf_from = Some ''30d'', tf_to = None\<rparr>
     = Inr ('' AND timestamp >= '' @ [quote] @ ''2023-10-15 22:13:20.000'' @ [quote])"
    by (simp add: example_literal)
  have "buildClause (parseRelativeDate_client exampleHost 1700000000000)
     (parseRelativeDate_client exampleHost 1700000000000) \<lparr>tf_from = Some ''30d'', tf_to = None\<rparr>
     = Inr ('' AND timestamp >= '' @ [quote] @ hogqlLiteral (1700000000000 - 2592000000)
              @ [quote])"
    by (rule buildClause_from_only) (simp_all add: t truthy_def)
  then show "buildClause (parseRelativeDate_client exampleHost 1700000000000)
     (parseRelativeDate_client exampleHost 1700000000000) \<lparr>tf_from = Some ''30d'', tf_to = None\<rparr>
     = Inr ('' AND timestamp >= '' @ [quote] @ ''2023-10-15 22:13:20.000'' @ [quote])"
    by (simp add: example_literal)
qed

lemma plain_text_unchanged:
  "escapeHogQLString ''p1'' = ''p1''" "escapeQuote_client ''p1'' = ''p1''"
  "escapeHogQLString ''pageview'' = ''pageview''" "escapeHogQLString ''signup'' = ''signup''"
  by (simp_all add: escapeHogQLString_def escapeQuote_client_def replaceAll_def backslash_def
      quote_def nul_def newline_def creturn_def tab_def)






section \<open>Properties of the transport client\<close>

lemma executeQuery_log: "snd (executeQuery config remote query log) = log @ [queryRequest config query]"
  by (simp add: executeQuery_def Let_def split: outcome.split option.split)

lemma executeQuery_refused:
  "remote log (queryRequest config query) = Responded r \<Longrightarrow> \<not> ok r \<Longrightarrow>
     executeQuery config remote query log
       = (Inl (Error (apiErrorMessage r)), log @ [queryRequest config query])"
  by (simp add: executeQuery_def Let_def)

lemma executeQuery_answered:
  "remote log (queryRequest config query) = Responded r \<Longrightarrow> ok r \<Longrightarrow> bodyJson r = Some res \<Longrightarrow>
     executeQuery config remote query log = (Inr res, log @ [queryRequest config query])"
  by (simp add: executeQuery_def Let_def)

lemma executeQuery_ErrorD:
  "fst (executeQuery config remote query log) = Inl (Error m) \<Longrightarrow>
     \<exists>r. remote log (queryRequest config query) = Responded r \<and> \<not> ok r \<and> m = apiErrorMessage r"
  by (auto simp: executeQuery_def Let_def split: outcome.splits option.splits if_splits)

lemma getPersonByEmail_log:
  "snd (getPersonByEmail config h remote email log)
     = log @ [queryRequest config (personByEmailQuery email)]"
  "snd (getPersonByEmail_client config h remote email log)
     = log @ [queryRequest config (personByEmailQuery_client email)]"
  using executeQuery_log [of config remote "personByEmailQuery email" log]
    executeQuery_log [of config remote "personByEmailQuery_client email" log]
  by (auto simp: getPersonByEmail_def getPersonByEmail_client_def
      split: prod.splits sum.splits list.splits)

lemma getPersonByEmail_answered:
  assumes "remote log (queryRequest config (personByEmailQuery email)) = Responded r"
    and "ok r" and "bodyJson r = Some res"
  shows "getPersonByEmail config h remote email log
     = (case results res of
          [] \<Rightarrow> Inr None
        | row # _ \<Rightarrow> Inr (Some \<lparr>person_id = fst row, distinctIds = [],
                                 person_properties = safeParseJson h (snd row)\<rparr>),
        log @ [queryRequest config (personByEmailQuery email)])"
  using assms
  by (simp add: getPersonByEmail_def executeQuery_def Let_def personOfRow_def
      split: list.split prod.split)

lemma getPersonByEmail_client_answered:
  assumes "remote log (queryRequest config (personByEmailQuery_client email)) = Responded r"
    and "ok r" and "bodyJson r = Some res"
  shows "getPersonByEmail_client config h remote email log
     = (case results res of
          [] \<Rightarrow> Inr None
        | row # _ \<Rightarrow>
            (case parseJson h (snd row) of
               None \<Rightarrow> Inl SyntaxError
             | Some v \<Rightarrow> Inr (Some \<lparr>person_id = fst row, distinctIds = [],
                                      person_properties = v\<rparr>)),
        log @ [queryRequest config (personByEmailQuery_client email)])"
  using assms
  by (simp add: getPersonByEmail_client_def executeQuery_def Let_def personOfRow_client_def
      parseJson_client_def split: list.split prod.split option.split)

lemma getPersonByEmail_absent_iff:
  assumes "remote log (queryRequest config (personByEmailQuery email)) = Responded r"
    and "ok r" and "bodyJson r = Some res"
  shows "fst (getPersonByEmail config h remote email log) = Inr None \<longleftrightarrow> results res = []"
  by (simp add: getPersonByEmail_answered [where r = r and res = res] assms split: list.split)

lemma getPersonByEmail_client_absent_iff:
  assumes "remote log (queryRequest config (personByEmailQuery_client email)) = Responded r"
    and "ok r" and "bodyJson r = Some res"
  shows "fst (getPersonByEmail_client config h remote email log) = Inr None
           \<longleftrightarrow> results res = []"
  by (simp add: getPersonByEmail_client_answered [where r = r and res = res] assms
      split: list.split option.split)

text \<open>
  C8. \<open>getPersonByEmail\<close> returns null exactly when the answer holds no rows, and a
  person made from the first row otherwise. The escaping variant does so
  (\<open>getPersonByEmail_answered\<close>, \<open>getPersonByEmail_absent_iff\<close>), and so does \<open>client.ts\<close>
  for no rows and for a row whose properties parse (\<open>getPersonByEmail_client_answered\<close>).
  On one row whose properties are not JSON, \<open>client.ts\<close> returns no person: the lookup
  ends with the \<open>SyntaxError\<close> of the unguarded parse.
\<close>

theorem client_one_row_lookup_throws:
  "getPersonByEmail_client exampleConfig exampleHost (answering [(''p2'', ''not json'')])
     ''ann@example.com'' []
   = (Inl SyntaxError, [queryRequest exampleConfig (personByEmailQuery_client ''ann@example.com'')])
   \<and> getPersonByEmail exampleConfig exampleHost (answering [(''p2'', ''not json'')])
     ''ann@example.com'' []
   = (Inr (Some \<lparr>person_id = ''p2'', distinctIds = [], person_properties = JObj []\<rparr>),
      [queryRequest exampleConfig (personByEmailQuery ''ann@example.com'')])"
  by (simp add: getPersonByEmail_client_def getPersonByEmail_def executeQuery_def
      answering_def ok_def envelope_def personOfRow_client_def personOfRow_def
      parseJson_client_def safeParseJson_def exampleHost_def exampleJson_def)

lemma example_person_lookup:
  "getPersonByEmail exampleConfig exampleHost (answering []) ''nobody@example.com'' []
     = (Inr None, [queryRequest exampleConfig (personByEmailQuery ''nobody@example.com'')])"
  "getPersonByEmail exampleConfig exampleHost (answering [(''p1'', ''{}'')]) ''ann@example.com'' []
     = (Inr (Some \<lparr>person_id = ''p1'', distinctIds = [], person_properties = JObj []\<rparr>),
        [queryRequest exampleConfig (personByEmailQuery ''ann@example.com'')])"
  by (simp_all add: getPersonByEmail_def executeQuery_def answering_def ok_def envelope_def
      personOfRow_def safeParseJson_def exampleHost_def exampleJson_def)

lemma example_events_query:
  "personEventsQuery exampleHost 1700000000000 1700000000000 ''p1'' None None None None
     = Inr (personEventsText ''p1'' []
             ('' AND timestamp >= '' @ [quote] @ ''2023-10-15 22:13:20.000'' @ [quote]) 50)"
  by (simp add: personEventsQuery_def buildTimestampClause_def example_clause truthy_def
      Let_def plain_text_unchanged)

text \<open>
  C7. When the lookup by e-mail finds nobody, \<open>getPersonWithEvents\<close> returns null and the
  log holds the one request of that lookup. When it finds a person, the result is that of
  \<open>getPersonEvents\<close> for the identifier of that person, run on the log that already holds
  the first request, so the second request comes after the first.
\<close>

theorem person_with_events_sequence:
  "(getPersonByEmail config h personsRemote email log = (Inr None, log') \<longrightarrow>
      getPersonWithEvents config h nowFrom nowTo personsRemote eventsRemote email eventsLimit
        eventType frm to log = (Inr None, log')
      \<and> log' = log @ [queryRequest config (personByEmailQuery email)])
   \<and> (getPersonByEmail config h personsRemote email log = (Inr (Some person), log') \<longrightarrow>
      log' = log @ [queryRequest config (personByEmailQuery email)]
      \<and> getPersonWithEvents config h nowFrom nowTo personsRemote eventsRemote email eventsLimit
          eventType frm to log
        = (case getPersonEvents config h nowFrom nowTo eventsRemote (person_id person)
                  eventsLimit eventType frm to log' of
             (Inl e, l) \<Rightarrow> (Inl e, l)
           | (Inr events, l) \<Rightarrow> (Inr (Some (person, events)), l))
      \<and> (\<forall>q. personEventsQuery h nowFrom nowTo (person_id person) eventsLimit eventType frm to
               = Inr q \<longrightarrow>
            snd (getPersonWithEvents config h nowFrom nowTo personsRemote eventsRemote email
                   eventsLimit eventType frm to log)
              = log @ [queryRequest config (personByEmailQuery email), queryRequest config q]))
   \<and> (getPersonByEmail_client config h personsRemote email log = (Inr None, log') \<longrightarrow>
      getPersonWithEvents_client config h nowFrom nowTo personsRemote eventsRemote email
        eventsLimit eventType frm to log = (Inr None, log')
      \<and> log' = log @ [queryRequest config (personByEmailQuery_client email)])
   \<and> (getPersonByEmail_client config h personsRemote email log = (Inr (Some person), log') \<longrightarrow>
      log' = log @ [queryRequest config (personByEmailQuery_client email)]
      \<and> getPersonWithEvents_client config h nowFrom nowTo personsRemote eventsRemote email
          eventsLimit eventType frm to log
        = (case getPersonEvents_client config h nowFrom nowTo eventsRemote (person_id person)
                  eventsLimit eventType frm to log' of
             (Inl e, l) \<Rightarrow> (Inl e, l)
           | (Inr events, l) \<Rightarrow> (Inr (Some (person, events)), l))
      \<and> (\<forall>q. personEventsQuery_client h nowFrom nowTo (person_id person) eventsLimit eventType
               frm to = Inr q \<longrightarrow>
            snd (getPersonWithEvents_client config h nowFrom nowTo personsRemote eventsRemote
                   email eventsLimit eventType frm to log)
              = log @ [queryRequest config (personByEmailQuery_client email),
                       queryRequest config q]))"
proof (intro conjI impI allI)
  assume a: "getPersonByEmail config h personsRemote email log = (Inr None, log')"
  then show "getPersonWithEvents config h nowFrom nowTo personsRemote eventsRemote email
      eventsLimit eventType frm to log = (Inr None, log')"
    by (simp add: getPersonWithEvents_def)
  from a show "log' = log @ [queryRequest config (personByEmailQuery email)]"
    using getPersonByEmail_log(1) [of config h personsRemote email log] by simp
next
  assume a: "getPersonByEmail config h personsRemote email log = (Inr (Some person), log')"
  then show l: "log' = log @ [queryRequest config (personByEmailQuery email)]"
    using getPersonByEmail_log(1) [of config h personsRemote email log] by simp
  from a show "getPersonWithEvents config h nowFrom nowTo personsRemote eventsRemote email
          eventsLimit eventType frm to log
        = (case getPersonEvents config h nowFrom nowTo eventsRemote (person_id person)
                  eventsLimit eventType frm to log' of
             (Inl e, l) \<Rightarrow> (Inl e, l)
           | (Inr events, l) \<Rightarrow> (Inr (Some (person, events)), l))"
    by (simp add: getPersonWithEvents_def)
  fix q
  assume "personEventsQuery h nowFrom nowTo (person_id person) eventsLimit eventType frm to
               = Inr q"
  then show "snd (getPersonWithEvents config h nowFrom nowTo personsRemote eventsRemote email
                   eventsLimit eventType frm to log)
              = log @ [queryRequest config (personByEmailQuery email), queryRequest config q]"
    using a l executeQuery_log [of config eventsRemote q log']
    by (auto simp: getPersonWithEvents_def getPersonEvents_def split: prod.splits sum.splits)
next
  assume a: "getPersonByEmail_client config h personsRemote email log = (Inr None, log')"
  then show "getPersonWithEvents_client config h nowFrom nowTo personsRemote eventsRemote email
      eventsLimit eventType frm to log = (Inr None, log')"
    by (simp add: getPersonWithEvents_client_def)
  from a show "log' = log @ [queryRequest config (personByEmailQuery_client email)]"
    using getPersonByEmail_log(2) [of config h personsRemote email log] by simp
next
  assume a: "getPersonByEmail_client config h personsRemote email log = (Inr (Some person), log')"
  then show l: "log' = log @ [queryRequest config (personByEmailQuery_client email)]"
    using getPersonByEmail_log(2) [of config h personsRemote email log] by simp
  from a show "getPersonWithEvents_client config h nowFrom nowTo personsRemote eventsRemote email
          eventsLimit eventType frm to log
        = (case getPersonEvents_client config h nowFrom nowTo eventsRemote (person_id person)
                  eventsLimit eventType frm to log' of
             (Inl e, l) \<Rightarrow> (Inl e, l)
           | (Inr events, l) \<Rightarrow> (Inr (Some (person, events)), l))"
    by (simp add: getPersonWithEvents_client_def)
  fix q
  assume "personEventsQuery_client h nowFrom nowTo (person_id person) eventsLimit eventType
               frm to = Inr q"
  then show "snd (getPersonWithEvents_client config h nowFrom nowTo personsRemote eventsRemote
                   email eventsLimit eventType frm to log)
              = log @ [queryRequest config (personByEmailQuery_client email),
                       queryRequest config q]"
    using a l executeQuery_log [of config eventsRemote q log']
    by (auto simp: getPersonWithEvents_client_def getPersonEvents_client_def
        split: prod.splits sum.splits)
qed


theorem person_with_events_sequence_witness:
  "getPersonWithEvents exampleConfig exampleHost 1700000000000 1700000000000 (answering [])
     (answering []) ''nobody@example.com'' None None None None []
     = (Inr None, [queryRequest exampleConfig (personByEmailQuery ''nobody@example.com'')])
   \<and> snd (getPersonWithEvents exampleConfig exampleHost 1700000000000 1700000000000
            (answering [(''p1'', ''{}'')]) (answering []) ''ann@example.com'' None None None
            None [])
     = [queryRequest exampleConfig (personByEmailQuery ''ann@example.com''),
        queryRequest exampleConfig (personEventsText ''p1'' []
          ('' AND timestamp >= '' @ [quote] @ ''2023-10-15 22:13:20.000'' @ [quote]) 50)]"
proof (rule conjI)
  note absent = person_with_events_sequence [where config = exampleConfig and h = exampleHost
      and personsRemote = "answering []" and email = "''nobody@example.com''" and log = "[]"
      and log' = "[queryRequest exampleConfig (personByEmailQuery ''nobody@example.com'')]"
      and nowFrom = 1700000000000 and nowTo = 1700000000000 and eventsRemote = "answering []"
      and eventsLimit = None and eventType = None and frm = None and to = None,
      THEN conjunct1, rule_format, OF example_person_lookup(1), THEN conjunct1]
  then show "getPersonWithEvents exampleConfig exampleHost 1700000000000 1700000000000
     (answering []) (answering []) ''nobody@example.com'' None None None None []
     = (Inr None, [queryRequest exampleConfig (personByEmailQuery ''nobody@example.com'')])" .
next
  note found = person_with_events_sequence [where config = exampleConfig and h = exampleHost
      and personsRemote = "answering [(''p1'', ''{}'')]" and email = "''ann@example.com''"
      and log = "[]"
      and log' = "[queryRequest exampleConfig (personByEmailQuery ''ann@example.com'')]"
      and person = "\<lparr>person_id = ''p1'', distinctIds = [], person_properties = JObj []\<rparr>"
      and nowFrom = 1700000000000 and nowTo = 1700000000000 and eventsRemote = "answering []"
      and eventsLimit = None and eventType = None and frm = None and to = None,
      THEN conjunct2, THEN conjunct1, rule_format, OF example_person_lookup(2),
      THEN conjunct2, THEN conjunct2, rule_format]
  show "snd (getPersonWithEvents exampleConfig exampleHost 1700000000000 1700000000000
            (answering [(''p1'', ''{}'')]) (answering []) ''ann@example.com'' None None None
            None [])
     = [queryRequest exampleConfig (personByEmailQuery ''ann@example.com''),
        queryRequest exampleConfig (personEventsText ''p1'' []
          ('' AND timestamp >= '' @ [quote] @ ''2023-10-15 22:13:20.000'' @ [quote]) 50)]"
    using found [of "personEventsText ''p1'' []
          ('' AND timestamp >= '' @ [quote] @ ''2023-10-15 22:13:20.000'' @ [quote]) 50"]
      example_events_query
    by simp
qed

lemma getPersonsByEvent_refused:
  assumes "remote log (queryRequest config q) = Responded r" and "\<not> ok r"
  shows "personsByEventQuery h nowFrom nowTo eventName lim frm to = Inr q \<Longrightarrow>
           getPersonsByEvent config h nowFrom nowTo remote eventName lim frm to log
             = (Inl (Error (apiErrorMessage r)), log @ [queryRequest config q])"
    and "personsByEventQuery_client h nowFrom nowTo eventName lim frm to = Inr q \<Longrightarrow>
           getPersonsByEvent_client config h nowFrom nowTo remote eventName lim frm to log
             = (Inl (Error (apiErrorMessage r)), log @ [queryRequest config q])"
  using assms
  by (simp_all add: getPersonsByEvent_def getPersonsByEvent_client_def executeQuery_def Let_def)

lemma getPersonEvents_refused:
  assumes "remote log (queryRequest config q) = Responded r" and "\<not> ok r"
  shows "personEventsQuery h nowFrom nowTo personId lim eventType frm to = Inr q \<Longrightarrow>
           getPersonEvents config h nowFrom nowTo remote personId lim eventType frm to log
             = (Inl (Error (apiErrorMessage r)), log @ [queryRequest config q])"
    and "personEventsQuery_client h nowFrom nowTo personId lim eventType frm to = Inr q \<Longrightarrow>
           getPersonEvents_client config h nowFrom nowTo remote personId lim eventType frm to log
             = (Inl (Error (apiErrorMessage r)), log @ [queryRequest config q])"
  using assms
  by (simp_all add: getPersonEvents_def getPersonEvents_client_def executeQuery_def Let_def)

lemma getPersonByEmail_refused:
  assumes "\<not> ok r"
  shows "remote log (queryRequest config (personByEmailQuery email)) = Responded r \<Longrightarrow>
           getPersonByEmail config h remote email log
             = (Inl (Error (apiErrorMessage r)),
                log @ [queryRequest config (personByEmailQuery email)])"
    and "remote log (queryRequest config (personByEmailQuery_client email)) = Responded r \<Longrightarrow>
           getPersonByEmail_client config h remote email log
             = (Inl (Error (apiErrorMessage r)),
                log @ [queryRequest config (personByEmailQuery_client email)])"
  using assms
  by (simp_all add: getPersonByEmail_def getPersonByEmail_client_def executeQuery_def Let_def)

lemma mapRows_no_Error:
  "(\<And>x. f x \<noteq> Inl (Error m)) \<Longrightarrow> mapRows f xs \<noteq> Inl (Error m)"
  by (induction xs) (auto split: sum.splits)

lemma rows_client_no_Error:
  "personOfRow_client h row \<noteq> Inl (Error m)" "eventOfRow_client h row' \<noteq> Inl (Error m)"
  by (auto simp: personOfRow_client_def eventOfRow_client_def parseJson_client_def
      split: prod.splits option.splits)

lemma buildClause_no_Error: "buildClause rf rt options \<noteq> Inl (Error m)"
  by (auto simp: buildClause_def boundClause_def formatDateForHogQL_def toISOString_def
      split: sum.splits option.splits if_splits)

lemma queries_no_Error:
  "personsByEventQuery h nowFrom nowTo eventName lim frm to \<noteq> Inl (Error m)"
  "personsByEventQuery_client h nowFrom nowTo eventName lim frm to \<noteq> Inl (Error m)"
  "personEventsQuery h nowFrom nowTo personId lim eventType frm to \<noteq> Inl (Error m)"
  "personEventsQuery_client h nowFrom nowTo personId lim eventType frm to \<noteq> Inl (Error m)"
  using buildClause_no_Error [of _ _ _ m]
  by (auto simp: personsByEventQuery_def personsByEventQuery_client_def personEventsQuery_def
      personEventsQuery_client_def buildTimestampClause_def buildTimestampClause_client_def
      Let_def split: sum.splits)


lemma executeQuery_Error_iff:
  "fst (executeQuery config remote query log) = Inl (Error m)
     \<longleftrightarrow> refusedBy remote log (queryRequest config query) m"
  by (auto simp: executeQuery_def refusedBy_def Let_def split: outcome.splits option.splits)

lemma getPersonByEmail_Error_iff:
  "fst (getPersonByEmail config h remote email log) = Inl (Error m)
     \<longleftrightarrow> refusedBy remote log (queryRequest config (personByEmailQuery email)) m"
  "fst (getPersonByEmail_client config h remote email log) = Inl (Error m)
     \<longleftrightarrow> refusedBy remote log (queryRequest config (personByEmailQuery_client email)) m"
  using executeQuery_Error_iff [of config remote "personByEmailQuery email" log m]
    executeQuery_Error_iff [of config remote "personByEmailQuery_client email" log m]
    rows_client_no_Error(1) [of h _ m]
  by (auto simp: getPersonByEmail_def getPersonByEmail_client_def
      split: prod.splits sum.splits list.splits)

lemma getPersonsByEvent_Error_iff:
  "fst (getPersonsByEvent config h nowFrom nowTo remote eventName lim frm to log) = Inl (Error m)
     \<longleftrightarrow> (case personsByEventQuery h nowFrom nowTo eventName lim frm to of
            Inl e \<Rightarrow> False
          | Inr q \<Rightarrow> refusedBy remote log (queryRequest config q) m)"
proof (cases "personsByEventQuery h nowFrom nowTo eventName lim frm to")
  case (Inl e)
  then show ?thesis
    using queries_no_Error(1) [of h nowFrom nowTo eventName lim frm to m]
    by (simp add: getPersonsByEvent_def)
next
  case (Inr q)
  then show ?thesis
    using executeQuery_Error_iff [of config remote q log m]
    by (auto simp: getPersonsByEvent_def split: prod.splits sum.splits)
qed

lemma getPersonsByEvent_client_Error_iff:
  "fst (getPersonsByEvent_client config h nowFrom nowTo remote eventName lim frm to log)
       = Inl (Error m)
     \<longleftrightarrow> (case personsByEventQuery_client h nowFrom nowTo eventName lim frm to of
            Inl e \<Rightarrow> False
          | Inr q \<Rightarrow> refusedBy remote log (queryRequest config q) m)"
proof (cases "personsByEventQuery_client h nowFrom nowTo eventName lim frm to")
  case (Inl e)
  then show ?thesis
    using queries_no_Error(2) [of h nowFrom nowTo eventName lim frm to m]
    by (simp add: getPersonsByEvent_client_def)
next
  case (Inr q)
  have "mapRows (personOfRow_client h) rows \<noteq> Inl (Error m)" for rows
    by (rule mapRows_no_Error) (rule rows_client_no_Error)
  with Inr show ?thesis
    using executeQuery_Error_iff [of config remote q log m]
    by (auto simp: getPersonsByEvent_client_def split: prod.splits sum.splits)
qed

lemma getPersonEvents_Error_iff:
  "fst (getPersonEvents config h nowFrom nowTo remote personId lim eventType frm to log)
       = Inl (Error m)
     \<longleftrightarrow> (case personEventsQuery h nowFrom nowTo personId lim eventType frm to of
            Inl e \<Rightarrow> False
          | Inr q \<Rightarrow> refusedBy remote log (queryRequest config q) m)"
proof (cases "personEventsQuery h nowFrom nowTo personId lim eventType frm to")
  case (Inl e)
  then show ?thesis
    using queries_no_Error(3) [of h nowFrom nowTo personId lim eventType frm to m]
    by (simp add: getPersonEvents_def)
next
  case (Inr q)
  then show ?thesis
    using executeQuery_Error_iff [of config remote q log m]
    by (auto simp: getPersonEvents_def split: prod.splits sum.splits)
qed

lemma getPersonEvents_client_Error_iff:
  "fst (getPersonEvents_client config h nowFrom nowTo remote personId lim eventType frm to log)
       = Inl (Error m)
     \<longleftrightarrow> (case personEventsQuery_client h nowFrom nowTo personId lim eventType frm to of
            Inl e \<Rightarrow> False
          | Inr q \<Rightarrow> refusedBy remote log (queryRequest config q) m)"
proof (cases "personEventsQuery_client h nowFrom nowTo personId lim eventType frm to")
  case (Inl e)
  then show ?thesis
    using queries_no_Error(4) [of h nowFrom nowTo personId lim eventType frm to m]
    by (simp add: getPersonEvents_client_def)
next
  case (Inr q)
  have "mapRows (eventOfRow_client h) rows \<noteq> Inl (Error m)" for rows
    by (rule mapRows_no_Error) (rule rows_client_no_Error)
  with Inr show ?thesis
    using executeQuery_Error_iff [of config remote q log m]
    by (auto simp: getPersonEvents_client_def split: prod.splits sum.splits)
qed

lemma executeQuery_logD:
  "executeQuery config remote query log = (x, l) \<Longrightarrow> l = log @ [queryRequest config query]"
  using executeQuery_log [of config remote query log] by simp

lemma getPersonsByEvent_log:
  "snd (getPersonsByEvent config h nowFrom nowTo remote eventName lim frm to log)
     = (case personsByEventQuery h nowFrom nowTo eventName lim frm to of
          Inl e \<Rightarrow> log | Inr q \<Rightarrow> log @ [queryRequest config q])"
  "snd (getPersonsByEvent_client config h nowFrom nowTo remote eventName lim frm to log)
     = (case personsByEventQuery_client h nowFrom nowTo eventName lim frm to of
          Inl e \<Rightarrow> log | Inr q \<Rightarrow> log @ [queryRequest config q])"
  by (auto simp: getPersonsByEvent_def getPersonsByEvent_client_def
      split: sum.splits prod.splits dest: executeQuery_logD)

lemma getPersonEvents_log:
  "snd (getPersonEvents config h nowFrom nowTo remote personId lim eventType frm to log)
     = (case personEventsQuery h nowFrom nowTo personId lim eventType frm to of
          Inl e \<Rightarrow> log | Inr q \<Rightarrow> log @ [queryRequest config q])"
  "snd (getPersonEvents_client config h nowFrom nowTo remote personId lim eventType frm to log)
     = (case personEventsQuery_client h nowFrom nowTo personId lim eventType frm to of
          Inl e \<Rightarrow> log | Inr q \<Rightarrow> log @ [queryRequest config q])"
  by (auto simp: getPersonEvents_def getPersonEvents_client_def
      split: sum.splits prod.splits dest: executeQuery_logD)


lemma getPersonWithEvents_Error_iff:
  "fst (getPersonWithEvents config h nowFrom nowTo personsRemote eventsRemote email eventsLimit
          eventType frm to log) = Inl (Error m)
     \<longleftrightarrow> refusedBy personsRemote log (queryRequest config (personByEmailQuery email)) m
         \<or> (case getPersonByEmail config h personsRemote email log of
               (Inr (Some person), log') \<Rightarrow>
                 (case personEventsQuery h nowFrom nowTo (person_id person) eventsLimit eventType
                         frm to of
                    Inl e \<Rightarrow> False
                  | Inr q \<Rightarrow> refusedBy eventsRemote log' (queryRequest config q) m)
             | _ \<Rightarrow> False)"
proof (cases "getPersonByEmail config h personsRemote email log")
  case (Pair res log')
  note first = getPersonByEmail_Error_iff(1) [of config h personsRemote email log m]
  show ?thesis
  proof (cases res)
    case (Inl e)
    with Pair first show ?thesis
      by (simp add: getPersonWithEvents_def)
  next
    case (Inr found)
    show ?thesis
    proof (cases found)
      case None
      with Pair Inr first show ?thesis
        by (simp add: getPersonWithEvents_def)
    next
      case (Some person)
      with Pair Inr first
        getPersonEvents_Error_iff [of config h nowFrom nowTo eventsRemote "person_id person"
          eventsLimit eventType frm to log' m]
      show ?thesis
        by (cases "getPersonEvents config h nowFrom nowTo eventsRemote (person_id person)
                     eventsLimit eventType frm to log'")
          (auto simp: getPersonWithEvents_def split: sum.splits)
    qed
  qed
qed

lemma getPersonWithEvents_client_Error_iff:
  "fst (getPersonWithEvents_client config h nowFrom nowTo personsRemote eventsRemote email
          eventsLimit eventType frm to log) = Inl (Error m)
     \<longleftrightarrow> refusedBy personsRemote log (queryRequest config (personByEmailQuery_client email)) m
         \<or> (case getPersonByEmail_client config h personsRemote email log of
               (Inr (Some person), log') \<Rightarrow>
                 (case personEventsQuery_client h nowFrom nowTo (person_id person) eventsLimit
                         eventType frm to of
                    Inl e \<Rightarrow> False
                  | Inr q \<Rightarrow> refusedBy eventsRemote log' (queryRequest config q) m)
             | _ \<Rightarrow> False)"
proof (cases "getPersonByEmail_client config h personsRemote email log")
  case (Pair res log')
  note first = getPersonByEmail_Error_iff(2) [of config h personsRemote email log m]
  show ?thesis
  proof (cases res)
    case (Inl e)
    with Pair first show ?thesis
      by (simp add: getPersonWithEvents_client_def)
  next
    case (Inr found)
    show ?thesis
    proof (cases found)
      case None
      with Pair Inr first show ?thesis
        by (simp add: getPersonWithEvents_client_def)
    next
      case (Some person)
      with Pair Inr first
        getPersonEvents_client_Error_iff [of config h nowFrom nowTo eventsRemote
          "person_id person" eventsLimit eventType frm to log' m]
      show ?thesis
        by (cases "getPersonEvents_client config h nowFrom nowTo eventsRemote (person_id person)
                     eventsLimit eventType frm to log'")
          (auto simp: getPersonWithEvents_client_def split: sum.splits)
    qed
  qed
qed

lemma getPersonWithEvents_log:
  "snd (getPersonWithEvents config h nowFrom nowTo personsRemote eventsRemote email eventsLimit
          eventType frm to log)
     = (case getPersonByEmail config h personsRemote email log of
          (Inr (Some person), log') \<Rightarrow>
            snd (getPersonEvents config h nowFrom nowTo eventsRemote (person_id person)
                   eventsLimit eventType frm to log')
        | (_, log') \<Rightarrow> log')"
  "snd (getPersonWithEvents_client config h nowFrom nowTo personsRemote eventsRemote email
          eventsLimit eventType frm to log)
     = (case getPersonByEmail_client config h personsRemote email log of
          (Inr (Some person), log') \<Rightarrow>
            snd (getPersonEvents_client config h nowFrom nowTo eventsRemote (person_id person)
                   eventsLimit eventType frm to log')
        | (_, log') \<Rightarrow> log')"
  by (auto simp: getPersonWithEvents_def getPersonWithEvents_client_def
      split: prod.splits sum.splits option.splits)


lemma example_refused:
  "refusedBy (refusing 503 ''down'') log req ''PostHog API error (503): down''"
  "refusedBy (refusing 500 ''boom'') log req ''PostHog API error (500): boom''"
  "\<not> refusedBy (answering rows) log req m"
  by (simp_all add: refusedBy_def refusing_def answering_def ok_def apiErrorMessage_def
      showNat.simps digitChar_def)

text \<open>
  C9. An operation ends with the error \<open>PostHog API error (status): body\<close> exactly when
  the remote side refuses one of its requests, that is answers with a status outside 200
  to 299, and the message is built from that status and body text. Every call of
  \<open>executeQuery\<close> adds one request to the log whatever the answer, so nothing is sent
  again.
\<close>

theorem refused_request_fails_once:
  "apiErrorMessage r = ''PostHog API error ('' @ showNat (status r) @ ''): '' @ bodyText r
   \<and> (fst (executeQuery config remote query log) = Inl (Error m)
        \<longleftrightarrow> refusedBy remote log (queryRequest config query) m)
   \<and> snd (executeQuery config remote query log) = log @ [queryRequest config query]
   \<and> (fst (getPersonByEmail config h personsRemote email log) = Inl (Error m)
        \<longleftrightarrow> refusedBy personsRemote log (queryRequest config (personByEmailQuery email)) m)
   \<and> snd (getPersonByEmail config h personsRemote email log)
        = log @ [queryRequest config (personByEmailQuery email)]
   \<and> (fst (getPersonsByEvent config h nowFrom nowTo personsRemote eventName lim frm to log)
          = Inl (Error m)
        \<longleftrightarrow> (case personsByEventQuery h nowFrom nowTo eventName lim frm to of
               Inl e \<Rightarrow> False
             | Inr q \<Rightarrow> refusedBy personsRemote log (queryRequest config q) m))
   \<and> snd (getPersonsByEvent config h nowFrom nowTo personsRemote eventName lim frm to log)
        = (case personsByEventQuery h nowFrom nowTo eventName lim frm to of
             Inl e \<Rightarrow> log | Inr q \<Rightarrow> log @ [queryRequest config q])
   \<and> (fst (getPersonEvents config h nowFrom nowTo eventsRemote personId lim eventType frm to log)
          = Inl (Error m)
        \<longleftrightarrow> (case personEventsQuery h nowFrom nowTo personId lim eventType frm to of
               Inl e \<Rightarrow> False
             | Inr q \<Rightarrow> refusedBy eventsRemote log (queryRequest config q) m))
   \<and> snd (getPersonEvents config h nowFrom nowTo eventsRemote personId lim eventType frm to log)
        = (case personEventsQuery h nowFrom nowTo personId lim eventType frm to of
             Inl e \<Rightarrow> log | Inr q \<Rightarrow> log @ [queryRequest config q])
   \<and> (fst (getPersonWithEvents config h nowFrom nowTo personsRemote eventsRemote email lim
               eventType frm to log) = Inl (Error m)
        \<longleftrightarrow> refusedBy personsRemote log (queryRequest config (personByEmailQuery email)) m
            \<or> (case getPersonByEmail config h personsRemote email log of
                  (Inr (Some person), log') \<Rightarrow>
                    (case personEventsQuery h nowFrom nowTo (person_id person) lim eventType
                            frm to of
                       Inl e \<Rightarrow> False
                     | Inr q \<Rightarrow> refusedBy eventsRemote log' (queryRequest config q) m)
                | _ \<Rightarrow> False))
   \<and> snd (getPersonWithEvents config h nowFrom nowTo personsRemote eventsRemote email lim
             eventType frm to log)
        = (case getPersonByEmail config h personsRemote email log of
             (Inr (Some person), log') \<Rightarrow>
               snd (getPersonEvents config h nowFrom nowTo eventsRemote (person_id person) lim
                      eventType frm to log')
           | (_, log') \<Rightarrow> log')
   \<and> (fst (getPersonByEmail_client config h personsRemote email log) = Inl (Error m)
        \<longleftrightarrow> refusedBy personsRemote log (queryRequest config (personByEmailQuery_client email)) m)
   \<and> snd (getPersonByEmail_client config h personsRemote email log)
        = log @ [queryRequest config (personByEmailQuery_client email)]
   \<and> (fst (getPersonsByEvent_client config h nowFrom nowTo personsRemote eventName lim frm to
               log) = Inl (Error m)
        \<longleftrightarrow> (case personsByEventQuery_client h nowFrom nowTo eventName lim frm to of
               Inl e \<Rightarrow> False
             | Inr q \<Rightarrow> refusedBy personsRemote log (queryRequest config q) m))
   \<and> snd (getPersonsByEvent_client config h nowFrom nowTo personsRemote eventName lim frm to log)
        = (case personsByEventQuery_client h nowFrom nowTo eventName lim frm to of
             Inl e \<Rightarrow> log | Inr q \<Rightarrow> log @ [queryRequest config q])
   \<and> (fst (getPersonEvents_client config h nowFrom nowTo eventsRemote personId lim eventType frm
               to log) = Inl (Error m)
        \<longleftrightarrow> (case personEventsQuery_client h nowFrom nowTo personId lim eventType frm to of
               Inl e \<Rightarrow> False
             | Inr q \<Rightarrow> refusedBy eventsRemote log (queryRequest config q) m))
   \<and> snd (getPersonEvents_client config h nowFrom nowTo eventsRemote personId lim eventType frm
             to log)
        = (case personEventsQuery_client h nowFrom nowTo personId lim eventType frm to of
             Inl e \<Rightarrow> log | Inr q \<Rightarrow> log @ [queryRequest config q])
   \<and> (fst (getPersonWithEvents_client config h nowFrom nowTo personsRemote eventsRemote email lim
               eventType frm to log) = Inl (Error m)
        \<longleftrightarrow> refusedBy personsRemote log (queryRequest config (personByEmailQuery_client email)) m
            \<or> (case getPersonByEmail_client config h personsRemote email log of
                  (Inr (Some person), log') \<Rightarrow>
                    (case personEventsQuery_client h nowFrom nowTo (person_id person) lim
                            eventType frm to of
                       Inl e \<Rightarrow> False
                     | Inr q \<Rightarrow> refusedBy eventsRemote log' (queryRequest config q) m)
                | _ \<Rightarrow> False))
   \<and> snd (getPersonWithEvents_client config h nowFrom nowTo personsRemote eventsRemote email lim
             eventType frm to log)
        = (case getPersonByEmail_client config h personsRemote email log of
             (Inr (Some person), log') \<Rightarrow>
               snd (getPersonEvents_client config h nowFrom nowTo eventsRemote (person_id person)
                      lim eventType frm to log')
           | (_, log') \<Rightarrow> log')"
  by (intro conjI)
    (rule apiErrorMessage_def executeQuery_Error_iff executeQuery_log
      getPersonByEmail_Error_iff getPersonByEmail_log getPersonsByEvent_Error_iff
      getPersonsByEvent_client_Error_iff getPersonsByEvent_log getPersonEvents_Error_iff
      getPersonEvents_client_Error_iff getPersonEvents_log getPersonWithEvents_Error_iff
      getPersonWithEvents_client_Error_iff getPersonWithEvents_log)+

theorem refused_request_fails_once_witness:
  "getPersonByEmail exampleConfig exampleHost (refusing 503 ''down'') ''ann@example.com'' []
     = (Inl (Error ''PostHog API error (503): down''),
        [queryRequest exampleConfig (personByEmailQuery ''ann@example.com'')])
   \<and> fst (getPersonWithEvents exampleConfig exampleHost 1700000000000 1700000000000
            (answering [(''p1'', ''{}'')]) (refusing 500 ''boom'') ''ann@example.com'' None None
            None None [])
     = Inl (Error ''PostHog API error (500): boom'')
   \<and> fst (getPersonEvents_client exampleConfig exampleHost 1700000000000 1700000000000
            (answering []) ''p1'' None None None None [])
     \<noteq> Inl (Error ''PostHog API error (500): boom'')"
proof (intro conjI)
  note t1 = refused_request_fails_once [where config = exampleConfig and h = exampleHost
      and personsRemote = "refusing 503 ''down''" and email = "''ann@example.com''"
      and log = "[]" and m = "''PostHog API error (503): down''"]
  have "fst (getPersonByEmail exampleConfig exampleHost (refusing 503 ''down'')
                  ''ann@example.com'' []) = Inl (Error ''PostHog API error (503): down'')"
    using t1 [THEN conjunct2, THEN conjunct2, THEN conjunct2, THEN conjunct1] by (simp add: example_refused)
  moreover have "snd (getPersonByEmail exampleConfig exampleHost (refusing 503 ''down'')
                  ''ann@example.com'' [])
        = [queryRequest exampleConfig (personByEmailQuery ''ann@example.com'')]"
    using t1 [THEN conjunct2, THEN conjunct2, THEN conjunct2, THEN conjunct2, THEN conjunct1] by simp
  ultimately show "getPersonByEmail exampleConfig exampleHost (refusing 503 ''down'')
       ''ann@example.com'' []
     = (Inl (Error ''PostHog API error (503): down''),
        [queryRequest exampleConfig (personByEmailQuery ''ann@example.com'')])"
    by (simp add: prod_eq_iff)
next
  note t2 = refused_request_fails_once [where config = exampleConfig and h = exampleHost
      and personsRemote = "answering [(''p1'', ''{}'')]" and email = "''ann@example.com''"
      and eventsRemote = "refusing 500 ''boom''" and nowFrom = 1700000000000
      and nowTo = 1700000000000 and lim = None and eventType = None and frm = None
      and to = None and log = "[]" and m = "''PostHog API error (500): boom''"]
  show "fst (getPersonWithEvents exampleConfig exampleHost 1700000000000 1700000000000
            (answering [(''p1'', ''{}'')]) (refusing 500 ''boom'') ''ann@example.com'' None None
            None None [])
     = Inl (Error ''PostHog API error (500): boom'')"
    using t2 [THEN conjunct2, THEN conjunct2, THEN conjunct2, THEN conjunct2, THEN conjunct2, THEN conjunct2, THEN conjunct2, THEN conjunct2, THEN conjunct2, THEN conjunct1]
    by (simp add: example_refused example_person_lookup example_events_query)
next
  note t3 = refused_request_fails_once [where config = exampleConfig and h = exampleHost
      and eventsRemote = "answering []" and personId = "''p1''" and nowFrom = 1700000000000
      and nowTo = 1700000000000 and lim = None and eventType = None and frm = None
      and to = None and log = "[]" and m = "''PostHog API error (500): boom''"]
  show "fst (getPersonEvents_client exampleConfig exampleHost 1700000000000 1700000000000
            (answering []) ''p1'' None None None None [])
     \<noteq> Inl (Error ''PostHog API error (500): boom'')"
    using t3 [THEN conjunct2, THEN conjunct2, THEN conjunct2, THEN conjunct2, THEN conjunct2, THEN conjunct2, THEN conjunct2, THEN conjunct2, THEN conjunct2, THEN conjunct2, THEN conjunct2, THEN conjunct2, THEN conjunct2, THEN conjunct2, THEN conjunct2, THEN conjunct1]
    by (simp add: example_refused split: sum.splits)
qed


end
